theory Spec2Isabelle
  imports Main
begin

section \<open>The pointer interaction manager (legacy \<^verbatim>\<open>InteractionManager\<close>)\<close>

text \<open>
  The interaction manager is one mutable object. Its fields become a record that every
  handler takes and returns. Page coordinates are integers (pixels). The mode and the
  type of an event target are strings in the source and stay strings here, so that a
  handler called with an unexpected type falls through its comparisons as the source does.
\<close>

record mouse_event =
  pageX :: int
  pageY :: int

text \<open>A port of the legacy diagram, as far as the manager reads it: its \<^verbatim>\<open>isInPort\<close> flag.\<close>

record lport =
  lportId :: string
  isInPort :: bool

text \<open>
  The argument of every handler: \<^verbatim>\<open>{type, event, node?, port?}\<close>. The fields
  \<^verbatim>\<open>node\<close> and \<^verbatim>\<open>port\<close> are present only for some targets.
\<close>

record para =
  ptype :: string
  pevent :: mouse_event
  pnode :: "nat option"
  pport :: "lport option"

record interaction =
  mouseMode :: string
  mousedownPos :: "int \<times> int"
  mouseupPos :: "int \<times> int"
  mouselastPos :: "int \<times> int"
  mouseMoved :: bool
  selectbox_x1 :: int
  selectbox_y1 :: int
  shifted :: bool
  ctrled :: bool
  visualizationBlocking :: bool
  dropPossible :: bool
  dragstartPara :: para
  cursor :: string
  selectboxShown :: bool
  nodesSelected :: "nat set"
  nodesHovered :: "nat set"
  edgeHover :: "nat set"
  edgeRequests :: "(lport option \<times> lport option) list"

text \<open>
  Modelled from the spec: the methods of \<^verbatim>\<open>core.dataflowManager\<close> and
  \<^verbatim>\<open>core.viewManager\<close> that the handlers call are not part of the sources. The
  selection and the hover set are sets of nodes; clearing empties the set, adding the
  hovered nodes forms the union, and a request to create an edge is recorded with the two
  ports in the order the handler passes them.
\<close>

definition clearNodeSelection :: "interaction \<Rightarrow> interaction" where
  "clearNodeSelection s = s\<lparr>nodesSelected := {}\<rparr>"

definition addHoveredToSelection :: "interaction \<Rightarrow> interaction" where
  "addHoveredToSelection s = s\<lparr>nodesSelected := nodesSelected s \<union> nodesHovered s\<rparr>"

definition addNodeSelection :: "interaction \<Rightarrow> nat option \<Rightarrow> interaction" where
  "addNodeSelection s n =
     (case n of None \<Rightarrow> s | Some k \<Rightarrow> s\<lparr>nodesSelected := insert k (nodesSelected s)\<rparr>)"

definition clearEdgeHover :: "interaction \<Rightarrow> interaction" where
  "clearEdgeHover s = s\<lparr>edgeHover := {}\<rparr>"

definition manager_createEdge ::
  "interaction \<Rightarrow> lport option \<Rightarrow> lport option \<Rightarrow> interaction" where
  "manager_createEdge s p1 p2 = s\<lparr>edgeRequests := edgeRequests s @ [(p1, p2)]\<rparr>"

text \<open>
  \<^verbatim>\<open>keyReleased(key)\<close> accepts one key or an array of keys and releases each in turn.
\<close>

datatype key_arg = Key string | Keys "string list"

definition releaseKey :: "interaction \<Rightarrow> string \<Rightarrow> interaction" where
  "releaseKey s key =
     (if key = ''shift'' then s\<lparr>shifted := False, cursor := ''''\<rparr>
      else if key = ''ctrl'' then
        s\<lparr>ctrled := False, cursor := '''', visualizationBlocking := True\<rparr>
      else s)"

definition keyReleased :: "interaction \<Rightarrow> key_arg \<Rightarrow> interaction" where
  "keyReleased s key =
     foldl releaseKey s (case key of Key k \<Rightarrow> [k] | Keys ks \<Rightarrow> ks)"

definition mousedownHandler :: "interaction \<Rightarrow> para \<Rightarrow> interaction" where
  "mousedownHandler s p =
     (let ev = pevent p;
          s1 = s\<lparr>mousedownPos := (pageX ev, pageY ev),
                 mouselastPos := (pageX ev, pageY ev)\<rparr>
      in if mouseMode s1 \<noteq> ''none'' then s1
         else if ptype p = ''background'' then
           (if ctrled s1 then s1\<lparr>mouseMode := ''pan''\<rparr>
            else s1\<lparr>selectbox_x1 := pageX ev, selectbox_y1 := pageY ev,
                    mouseMode := ''selectbox''\<rparr>)
         else if ptype p = ''node'' then s1\<lparr>mouseMode := ''node''\<rparr>
         else s1)"

definition clickHandler :: "interaction \<Rightarrow> para \<Rightarrow> interaction" where
  "clickHandler s p = (if ptype p = ''empty'' then clearNodeSelection s else s)"

text \<open>
  \<^verbatim>\<open>mouseupHandler\<close>. The vertical difference is written in the source as
  \<^verbatim>\<open>this.mousedownPos[1] - this.mousedownPos[1]\<close>, and is modelled as written.
\<close>

definition mouseupHandler :: "interaction \<Rightarrow> para \<Rightarrow> interaction" where
  "mouseupHandler s p =
     (let ev = pevent p;
          s1 = s\<lparr>mouseupPos := (pageX ev, pageY ev)\<rparr>;
          dx = fst (mouseupPos s1) - fst (mousedownPos s1);
          dy = snd (mousedownPos s1) - snd (mousedownPos s1);
          s2 = s1\<lparr>mouseMoved := (\<bar>dx\<bar> + \<bar>dy\<bar> > 0)\<rparr>;
          s3 = (if ptype p = ''background'' then
                  (if mouseMode s2 = ''pan'' then s2\<lparr>cursor := ''''\<rparr>
                   else if mouseMode s2 = ''selectbox'' then
                     (let h = s2\<lparr>selectboxShown := False\<rparr>
                      in if \<not> mouseMoved h then
                           clickHandler h \<lparr>ptype = ''empty'', pevent = ev,
                                           pnode = None, pport = None\<rparr>
                         else if \<not> ctrled h then
                           addHoveredToSelection
                             (if \<not> shifted h then clearNodeSelection h else h)
                         else h)
                   else s2)
                else if ptype p = ''node'' then
                  (if \<not> mouseMoved s2 then
                     addNodeSelection
                       (if \<not> shifted s2 then clearNodeSelection s2 else s2) (pnode p)
                   else s2)
                else s2);
          s4 = keyReleased s3 (Keys [''shift'', ''ctrl'']);
          s5 = clearEdgeHover s4
      in s5\<lparr>mouseMode := ''none''\<rparr>)"

text \<open>
  \<^verbatim>\<open>dropHandler\<close> reads \<^verbatim>\<open>port1.isInPort\<close>; a drag that recorded no port makes
  that read a \<^verbatim>\<open>TypeError\<close>. The port of the drop target is passed on as it is.
\<close>

datatype js_error = TypeError

definition dropHandler :: "interaction \<Rightarrow> para \<Rightarrow> js_error + interaction" where
  "dropHandler s p =
     (if ptype p = ''port'' \<and> dropPossible s then
        (case pport (dragstartPara s) of
           None \<Rightarrow> Inl TypeError
         | Some port1 \<Rightarrow>
             (let port2 = pport p;
                  (a, b) = (if isInPort port1 then (port2, Some port1)
                            else (Some port1, port2))
              in Inr ((manager_createEdge s a b)\<lparr>dropPossible := False\<rparr>)))
      else Inr s)"

section \<open>The dataflow store helpers (\<^verbatim>\<open>store/dataflow/helper.ts\<close>)\<close>

subsection \<open>Objects and the store\<close>

text \<open>
  Nodes and edges are objects with identity: two edges between the same ports are two
  objects, and \<^verbatim>\<open>_.pull\<close> and \<^verbatim>\<open>_.indexOf\<close> compare references. A node
  reference and an edge reference are addresses; the store maps every address to the
  object's fields. A reference of the source always points to an object, so the heaps are
  total functions and \<^verbatim>\<open>new\<close> takes the next unused address.

  A port belongs to one node for its lifetime and never changes direction or id, so a
  port reference is the triple of its owner, its direction and its id; the only mutable
  field of a port, its list of incident edges, lives in the store.
\<close>

type_synonym nref = nat
type_synonym eref = nat

datatype port = Port (port_node: nref) (isInput: bool) (port_id: string)

record edge =
  source :: port
  target :: port

record create_node_data =
  data_dataflowX :: "int option"
  data_dataflowY :: "int option"
  data_dataflowCenterX :: "int option"
  data_dataflowCenterY :: "int option"

record node_obj =
  nodeId :: string
  nodeType :: string
  layer :: int
  node_x :: int
  node_y :: int
  inputPorts :: "port list"
  outputPorts :: "port list"
  isSelected :: bool
  isActive :: bool
  isPropagationSource :: bool
  dataOnCreate :: create_node_data

datatype prop_call =
  PropagateNode nref
  | PropagateNodes "nref list"
  | PropagatePort port

text \<open>
  The state of the dataflow store (\<^verbatim>\<open>DataflowState\<close>: \<open>nodes\<close>, \<open>diagramName\<close>,
  \<open>numNodeLayers\<close>, \<open>isDeserializing\<close>), the heaps, what the canvas holds, and the two
  effects the helpers have on their surroundings: the system messages shown and the
  propagation calls made, both in call order. The canvas is taken to be mounted.
\<close>

record dataflow =
  nodes :: "nref list"
  diagramName :: string
  numNodeLayers :: int
  isDeserializing :: bool
  nodeObj :: "nref \<Rightarrow> node_obj"
  incident :: "port \<Rightarrow> eref list"
  edgeObj :: "eref \<Rightarrow> edge"
  nextNode :: nref
  nextEdge :: eref
  canvasNodes :: "nref list"
  canvasEdges :: "eref list"
  messages :: "(string \<times> string) list"
  consoleErrors :: "string list"
  propagations :: "prop_call list"
  historyCleared :: nat

subsection \<open>Collaborators outside the sources\<close>

text \<open>
  Modelled from the spec: the methods of \<^verbatim>\<open>Port\<close>, \<^verbatim>\<open>Node\<close>, the canvas,
  \<^verbatim>\<open>showSystemMessage\<close> and the propagation functions are not part of the sources.
  A port keeps its incident edges in a list, adding appends and removing pulls every
  occurrence; a node's edges are the incident edges of its ports, its output neighbours
  are the owners of the target ports of its output edges, each once; the canvas keeps
  the nodes and edges it was given; a message and a propagation call are recorded.
\<close>

definition addIncidentEdge :: "dataflow \<Rightarrow> port \<Rightarrow> eref \<Rightarrow> dataflow" where
  "addIncidentEdge w p e = w\<lparr>incident := (incident w)(p := incident w p @ [e])\<rparr>"

definition removeIncidentEdge :: "dataflow \<Rightarrow> port \<Rightarrow> eref \<Rightarrow> dataflow" where
  "removeIncidentEdge w p e = w\<lparr>incident := (incident w)(p := removeAll e (incident w p))\<rparr>"

definition node_ports :: "dataflow \<Rightarrow> nref \<Rightarrow> port list" where
  "node_ports w n = inputPorts (nodeObj w n) @ outputPorts (nodeObj w n)"

definition getAllEdges :: "dataflow \<Rightarrow> nref \<Rightarrow> eref list" where
  "getAllEdges w n = concat (map (incident w) (node_ports w n))"

definition getOutputEdges :: "dataflow \<Rightarrow> nref \<Rightarrow> eref list" where
  "getOutputEdges w n = concat (map (incident w) (outputPorts (nodeObj w n)))"

definition set_add :: "'a list \<Rightarrow> 'a \<Rightarrow> 'a list" where
  "set_add xs x = (if x \<in> set xs then xs else xs @ [x])"

definition getOutputNodes :: "dataflow \<Rightarrow> nref \<Rightarrow> nref list" where
  "getOutputNodes w n =
     foldl set_add [] (map (\<lambda>e. port_node (target (edgeObj w e))) (getOutputEdges w n))"



definition canvas_addNode :: "dataflow \<Rightarrow> nref \<Rightarrow> dataflow" where
  "canvas_addNode w n = w\<lparr>canvasNodes := canvasNodes w @ [n]\<rparr>"

definition canvas_removeNode :: "dataflow \<Rightarrow> nref \<Rightarrow> dataflow" where
  "canvas_removeNode w n = w\<lparr>canvasNodes := removeAll n (canvasNodes w)\<rparr>"

definition canvas_addEdge :: "dataflow \<Rightarrow> eref \<Rightarrow> dataflow" where
  "canvas_addEdge w e = w\<lparr>canvasEdges := canvasEdges w @ [e]\<rparr>"

definition canvas_removeEdge :: "dataflow \<Rightarrow> eref \<Rightarrow> dataflow" where
  "canvas_removeEdge w e = w\<lparr>canvasEdges := removeAll e (canvasEdges w)\<rparr>"

definition showSystemMessage :: "dataflow \<Rightarrow> string \<Rightarrow> string \<Rightarrow> dataflow" where
  "showSystemMessage w text kind = w\<lparr>messages := messages w @ [(text, kind)]\<rparr>"

definition propagateNode :: "dataflow \<Rightarrow> nref \<Rightarrow> dataflow" where
  "propagateNode w n = w\<lparr>propagations := propagations w @ [PropagateNode n]\<rparr>"

definition propagateNodes :: "dataflow \<Rightarrow> nref list \<Rightarrow> dataflow" where
  "propagateNodes w ns = w\<lparr>propagations := propagations w @ [PropagateNodes ns]\<rparr>"

definition propagatePort :: "dataflow \<Rightarrow> port \<Rightarrow> dataflow" where
  "propagatePort w p = w\<lparr>propagations := propagations w @ [PropagatePort p]\<rparr>"

text \<open>
  \<^verbatim>\<open>checkEdgeConnectivity\<close> and \<^verbatim>\<open>Node.findConnectablePort\<close> are not part of the
  sources either. They read the diagram and change nothing, so the helpers take them as
  parameters: a function from the store and two ports to the verdict, and a function
  from the store, a node and a port to the port found, if any.
\<close>

record connectivity =
  connectable :: bool
  reason :: string

type_synonym check = "dataflow \<Rightarrow> port \<Rightarrow> port \<Rightarrow> connectivity"
type_synonym finder = "dataflow \<Rightarrow> nref \<Rightarrow> port \<Rightarrow> port option"

subsection \<open>Edges\<close>

record edge_options =
  disableMessage :: bool

definition message_disabled :: "edge_options option \<Rightarrow> bool" where
  "message_disabled options = (case options of None \<Rightarrow> False | Some opt \<Rightarrow> disableMessage opt)"

definition createEdge ::
  "check \<Rightarrow> dataflow \<Rightarrow> port \<Rightarrow> port \<Rightarrow> bool \<Rightarrow> edge_options option
     \<Rightarrow> eref option \<times> dataflow" where
  "createEdge chk w sourcePort targetPort propagate options =
     (let c = chk w sourcePort targetPort
      in if \<not> connectable c then
           (None, if \<not> message_disabled options
                  then showSystemMessage w (reason c) ''warn'' else w)
         else
           (let e = nextEdge w;
                obj = \<lparr>source = (if \<not> isInput sourcePort then sourcePort else targetPort),
                       target = (if \<not> isInput sourcePort then targetPort else sourcePort)\<rparr>;
                w1 = w\<lparr>edgeObj := (edgeObj w)(e := obj), nextEdge := Suc e\<rparr>;
                w2 = addIncidentEdge w1 sourcePort e;
                w3 = addIncidentEdge w2 targetPort e;
                w4 = canvas_addEdge w3 e;
                w5 = (if propagate then propagateNode w4 (port_node (target (edgeObj w4 e)))
                      else w4)
            in (Some e, w5)))"

definition createEdgeToNode ::
  "check \<Rightarrow> finder \<Rightarrow> dataflow \<Rightarrow> port \<Rightarrow> nref \<Rightarrow> bool \<Rightarrow> edge_options option
     \<Rightarrow> eref option \<times> dataflow" where
  "createEdgeToNode chk fcp w sourcePort targetNode propagate options =
     (case fcp w targetNode sourcePort of
        None \<Rightarrow>
          (None, if \<not> message_disabled options
                 then showSystemMessage w ''cannot find available port to connect'' ''warn''
                 else w)
      | Some targetPort \<Rightarrow> createEdge chk w sourcePort targetPort propagate None)"

definition removeEdge :: "dataflow \<Rightarrow> eref \<Rightarrow> bool \<Rightarrow> dataflow" where
  "removeEdge w e propagate =
     (let w1 = removeIncidentEdge w (source (edgeObj w e)) e;
          w2 = removeIncidentEdge w1 (target (edgeObj w1 e)) e;
          w3 = (if propagate then propagateNode w2 (port_node (target (edgeObj w2 e)))
                else w2)
      in canvas_removeEdge w3 e)"

subsection \<open>Removing nodes\<close>

definition removeNode :: "dataflow \<Rightarrow> nref \<Rightarrow> bool \<Rightarrow> eref list \<times> dataflow" where
  "removeNode w n propagate =
     (let outputNodes = getOutputNodes w n;
          edgesToRemove = getAllEdges w n;
          w1 = foldl (\<lambda>v e. removeEdge v e False) w edgesToRemove;
          w2 = (if propagate then propagateNodes w1 outputNodes else w1);
          w3 = w2\<lparr>nodes := removeAll n (nodes w2)\<rparr>
      in (edgesToRemove, canvas_removeNode w3 n))"

definition removeSelectedNodes :: "dataflow \<Rightarrow> (nref list \<times> eref list) \<times> dataflow" where
  "removeSelectedNodes w =
     (let ns = filter (\<lambda>n. isSelected (nodeObj w n)) (nodes w);
          affectedOutputNodes =
            foldl (\<lambda>acc n. foldl (\<lambda>a toNode. if toNode \<notin> set ns then set_add a toNode else a)
                              acc (getOutputNodes w n)) [] ns;
          (removedEdges, w1) =
            foldl (\<lambda>(res, v) n. case removeNode v n False of (es, v') \<Rightarrow> (res @ es, v'))
                  ([], w) ns;
          w2 = propagateNodes w1 affectedOutputNodes
      in ((ns, removedEdges), w2))"

subsection \<open>Inserting a node on an edge\<close>

definition insertNodeOnEdge ::
  "check \<Rightarrow> finder \<Rightarrow> dataflow \<Rightarrow> nref \<Rightarrow> eref \<Rightarrow> (eref list \<times> eref) \<times> dataflow" where
  "insertNodeOnEdge chk fcp w n e =
     (let edgeSource = source (edgeObj w e);
          edgeTarget = target (edgeObj w e);
          w1 = removeEdge w e False;
          nodeOutputPort = fcp w1 n edgeTarget;
          quiet = Some \<lparr>disableMessage = True\<rparr>;
          (e1, e2, createdEdges, w3) =
            (case nodeOutputPort of
               None \<Rightarrow> (None, None, [], w1)
             | Some outPort \<Rightarrow>
                 (case createEdgeToNode chk fcp w1 (source (edgeObj w1 e)) n False quiet of
                    (r1, w2) \<Rightarrow>
                      (case createEdge chk w2 outPort edgeTarget False quiet of
                         (r2, v) \<Rightarrow> (r1, r2, List.map_filter (\<lambda>r. r) [r1, r2], v))));
          w4 = (if e1 \<noteq> None then propagatePort w3 edgeSource else w3);
          w5 = (if e2 \<noteq> None \<and> e1 = None then propagateNode w4 n else w4)
      in ((createdEdges, e), w5))"

subsection \<open>Creating nodes\<close>

text \<open>
  \<^verbatim>\<open>`node-${id}`\<close> writes the counter in decimal, without leading zeros.
\<close>

definition digit_char :: "nat \<Rightarrow> char" where
  "digit_char d = ''0123456789'' ! d"

fun show_nat :: "nat \<Rightarrow> string" where
  "show_nat n = (if n < 10 then [digit_char n] else show_nat (n div 10) @ [digit_char (n mod 10)])"

definition node_name :: "nat \<Rightarrow> string" where
  "node_name k = ''node-'' @ show_nat k"

text \<open>
  \<^verbatim>\<open>assignNodeId\<close>: the loop \<^verbatim>\<open>for (let id = 1;; id++)\<close> has no bound of its own. It
  stops because only finitely many counters name a node of the diagram, which is the
  measure of the termination proof below.
\<close>

function assignNodeId_from :: "string list \<Rightarrow> nat \<Rightarrow> string" where
  "assignNodeId_from nodeIds k =
     (let newId = node_name k
      in if newId \<notin> set nodeIds then newId else assignNodeId_from nodeIds (Suc k))"
  by pat_completeness auto

text \<open>Distinct counters have distinct names, so the names in use bound the loop.\<close>

lemma digit_char_inj: "a < 10 \<Longrightarrow> b < 10 \<Longrightarrow> digit_char a = digit_char b \<Longrightarrow> a = b"
proof -
  assume a: "a < 10" and b: "b < 10" and e: "digit_char a = digit_char b"
  have d: "distinct ''0123456789''" by simp
  have l: "length ''0123456789'' = 10" by simp
  from e have "''0123456789'' ! a = ''0123456789'' ! b" by (simp only: digit_char_def)
  with d l a b show "a = b" by (metis nth_eq_iff_index_eq)
qed

lemma show_nat_not_Nil: "show_nat n \<noteq> []"
  by (subst show_nat.simps) simp

declare show_nat.simps [simp del]

lemma show_nat_inj: "show_nat n = show_nat m \<Longrightarrow> n = m"
proof (induction n arbitrary: m rule: show_nat.induct)
  case (1 n)
  show ?case
  proof (cases "n < 10")
    case True
    then have n: "show_nat n = [digit_char n]" by (subst show_nat.simps) simp
    show ?thesis
    proof (cases "m < 10")
      case True
      then have "show_nat m = [digit_char m]" by (subst show_nat.simps) simp
      with n "1.prems" \<open>n < 10\<close> True show ?thesis by (auto dest: digit_char_inj)
    next
      case False
      then have "show_nat m = show_nat (m div 10) @ [digit_char (m mod 10)]"
        by (subst show_nat.simps) simp
      with n "1.prems" show_nat_not_Nil [of "m div 10"] show ?thesis by (cases "show_nat (m div 10)") auto
    qed
  next
    case False
    then have n: "show_nat n = show_nat (n div 10) @ [digit_char (n mod 10)]"
      by (subst show_nat.simps) simp
    show ?thesis
    proof (cases "m < 10")
      case True
      then have "show_nat m = [digit_char m]" by (subst show_nat.simps) simp
      with n "1.prems" show_nat_not_Nil [of "n div 10"] show ?thesis by (cases "show_nat (n div 10)") auto
    next
      case m: False
      then have "show_nat m = show_nat (m div 10) @ [digit_char (m mod 10)]"
        by (subst show_nat.simps) simp
      with n "1.prems" have q: "show_nat (n div 10) = show_nat (m div 10)"
        and r: "digit_char (n mod 10) = digit_char (m mod 10)" by auto
      from "1.IH" [OF False q] have "n div 10 = m div 10" .
      moreover have "n mod 10 < 10" "m mod 10 < 10" by simp_all
      then have "n mod 10 = m mod 10" using r by (rule digit_char_inj)
      ultimately show ?thesis by (metis div_mult_mod_eq)
    qed
  qed
qed

lemma node_name_inj: "node_name a = node_name b \<Longrightarrow> a = b"
  by (auto simp: node_name_def dest: show_nat_inj)

lemma finite_named: "finite {k. node_name k \<in> set ids}"
proof -
  have "inj node_name" by (auto intro: injI dest: node_name_inj)
  then have "finite (node_name -` set ids)" by (intro finite_vimageI) simp_all
  then show ?thesis by (simp add: vimage_def)
qed

termination assignNodeId_from
proof (relation "measure (\<lambda>(ids, k). card {j. k \<le> j \<and> node_name j \<in> set ids})")
  show "wf (measure (\<lambda>(ids, k). card {j. k \<le> j \<and> node_name j \<in> set ids}))" by simp
next
  fix nodeIds :: "string list" and k x
  assume "x = node_name k" and "\<not> x \<notin> set nodeIds"
  then have k: "node_name k \<in> set nodeIds" by simp
  have fin: "finite {j. k \<le> j \<and> node_name j \<in> set nodeIds}"
    by (rule finite_subset [OF _ finite_named [of nodeIds]]) auto
  have "k \<in> {j. k \<le> j \<and> node_name j \<in> set nodeIds}"
    and "k \<notin> {j. Suc k \<le> j \<and> node_name j \<in> set nodeIds}"
    and "{j. Suc k \<le> j \<and> node_name j \<in> set nodeIds} \<subseteq> {j. k \<le> j \<and> node_name j \<in> set nodeIds}"
    using k by auto
  then have "{j. Suc k \<le> j \<and> node_name j \<in> set nodeIds} \<subset> {j. k \<le> j \<and> node_name j \<in> set nodeIds}"
    by blast
  with fin have "card {j. Suc k \<le> j \<and> node_name j \<in> set nodeIds}
                  < card {j. k \<le> j \<and> node_name j \<in> set nodeIds}"
    by (rule psubset_card_mono)
  then show "((nodeIds, Suc k), (nodeIds, k))
               \<in> measure (\<lambda>(ids, k). card {j. k \<le> j \<and> node_name j \<in> set ids})"
    by simp
qed

declare assignNodeId_from.simps [simp del]

definition node_ids :: "dataflow \<Rightarrow> string list" where
  "node_ids w = map (\<lambda>n. nodeId (nodeObj w n)) (nodes w)"

definition assignNodeId :: "dataflow \<Rightarrow> string" where
  "assignNodeId state = assignNodeId_from (node_ids state) 1"

record create_node_options =
  opt_type :: string
  opt_dataflowX :: "int option"
  opt_dataflowY :: "int option"
  opt_dataflowCenterX :: "int option"
  opt_dataflowCenterY :: "int option"
  opt_activate :: bool

definition getNodeDataOnCreate :: "create_node_options \<Rightarrow> create_node_data" where
  "getNodeDataOnCreate options =
     (if opt_dataflowX options \<noteq> None \<and> opt_dataflowY options \<noteq> None then
        \<lparr>data_dataflowX = opt_dataflowX options, data_dataflowY = opt_dataflowY options,
         data_dataflowCenterX = None, data_dataflowCenterY = None\<rparr>
      else if opt_dataflowCenterX options \<noteq> None \<and> opt_dataflowCenterY options \<noteq> None then
        \<lparr>data_dataflowX = None, data_dataflowY = None,
         data_dataflowCenterX = opt_dataflowCenterX options,
         data_dataflowCenterY = opt_dataflowCenterY options\<rparr>
      else
        \<lparr>data_dataflowX = None, data_dataflowY = None,
         data_dataflowCenterX = None, data_dataflowCenterY = None\<rparr>)"

text \<open>
  Modelled from the spec: the saved record of a node, the node classes and their registry
  (\<^verbatim>\<open>getConstructor\<close>) are not part of the sources. A saved node carries its id, type,
  layer and position. A node class fixes the type tag and the ids of the input and
  output ports of its instances, and whether they start a propagation. The constructor
  receives \<^verbatim>\<open>{id, dataOnCreate, ...nodeSave}\<close> as the data of the instance: the fields
  of a saved record, its id among them, come after the assigned id and replace it.
\<close>

record node_save =
  save_id :: string
  save_type :: string
  save_layer :: int
  save_dataflowX :: int
  save_dataflowY :: int

record node_ctor =
  ctor_nodeType :: string
  ctor_inputs :: "string list"
  ctor_outputs :: "string list"
  ctor_isPropagationSource :: bool

type_synonym registry = "string \<Rightarrow> node_ctor"

definition new_node ::
  "node_ctor \<Rightarrow> nref \<Rightarrow> string \<Rightarrow> create_node_data \<Rightarrow> node_save option \<Rightarrow> node_obj" where
  "new_node c n i d nodeSave =
     \<lparr>nodeId = (case nodeSave of None \<Rightarrow> i | Some sv \<Rightarrow> save_id sv),
      nodeType = ctor_nodeType c,
      layer = (case nodeSave of None \<Rightarrow> 0 | Some sv \<Rightarrow> save_layer sv),
      node_x = (case nodeSave of None \<Rightarrow> 0 | Some sv \<Rightarrow> save_dataflowX sv),
      node_y = (case nodeSave of None \<Rightarrow> 0 | Some sv \<Rightarrow> save_dataflowY sv),
      inputPorts = map (Port n True) (ctor_inputs c),
      outputPorts = map (Port n False) (ctor_outputs c),
      isSelected = False,
      isActive = False,
      isPropagationSource = ctor_isPropagationSource c,
      dataOnCreate = d\<rparr>"

definition node_activate :: "dataflow \<Rightarrow> nref \<Rightarrow> dataflow" where
  "node_activate w n = w\<lparr>nodeObj := (nodeObj w)(n := (nodeObj w n)\<lparr>isActive := True\<rparr>)\<rparr>"


definition node_select :: "dataflow \<Rightarrow> nref \<Rightarrow> dataflow" where
  "node_select w n = w\<lparr>nodeObj := (nodeObj w)(n := (nodeObj w n)\<lparr>isSelected := True\<rparr>)\<rparr>"

definition createNode ::
  "registry \<Rightarrow> dataflow \<Rightarrow> create_node_options \<Rightarrow> node_save option \<Rightarrow> nref \<times> dataflow" where
  "createNode reg w options nodeSave =
     (let ctor = reg (opt_type options);
          i = assignNodeId w;
          d = getNodeDataOnCreate options;
          n = nextNode w;
          w1 = w\<lparr>nodeObj := (nodeObj w)(n := new_node ctor n i d nodeSave),
                 incident := (\<lambda>p. if port_node p = n then [] else incident w p),
                 nextNode := Suc n\<rparr>;
          w2 = (if nodeType (nodeObj w1 n) \<noteq> opt_type options
                then w1\<lparr>consoleErrors := consoleErrors w1
                          @ [''NODE_TYPE not set on node '' @ opt_type options]\<rparr>
                else w1);
          w3 = canvas_addNode w2 n;
          w4 = w3\<lparr>nodes := nodes w3 @ [n]\<rparr>;
          w5 = (if opt_activate options then node_select (node_activate w4 n) n else w4)
      in (n, w5))"

subsection \<open>Saving and loading a diagram\<close>













subsection \<open>The structure of a diagram\<close>

text \<open>
  The invariants the data model asks of a diagram: the ports a node lists are its own,
  inputs among the input ports and outputs among the output ports; every edge the
  canvas holds joins an output port to an input port of nodes of the diagram and is
  incident to both; and a port's incident edges are edges of the diagram that reference
  that port.
\<close>

definition ports_owned :: "dataflow \<Rightarrow> bool" where
  "ports_owned w =
     (\<forall>n\<in>set (nodes w).
        (\<forall>p\<in>set (inputPorts (nodeObj w n)). port_node p = n \<and> isInput p) \<and>
        (\<forall>p\<in>set (outputPorts (nodeObj w n)). port_node p = n \<and> \<not> isInput p))"

definition edges_linked :: "dataflow \<Rightarrow> bool" where
  "edges_linked w =
     (\<forall>e\<in>set (canvasEdges w).
        port_node (source (edgeObj w e)) \<in> set (nodes w) \<and>
        port_node (target (edgeObj w e)) \<in> set (nodes w) \<and>
        source (edgeObj w e) \<in> set (outputPorts (nodeObj w (port_node (source (edgeObj w e))))) \<and>
        target (edgeObj w e) \<in> set (inputPorts (nodeObj w (port_node (target (edgeObj w e))))) \<and>
        e \<in> set (incident w (source (edgeObj w e))) \<and>
        e \<in> set (incident w (target (edgeObj w e))))"

definition incidence_sound :: "dataflow \<Rightarrow> bool" where
  "incidence_sound w =
     (\<forall>n\<in>set (nodes w). \<forall>p\<in>set (node_ports w n). \<forall>e\<in>set (incident w p).
        e \<in> set (canvasEdges w) \<and> (source (edgeObj w e) = p \<or> target (edgeObj w e) = p))"

definition well_formed :: "dataflow \<Rightarrow> bool" where
  "well_formed w = (ports_owned w \<and> edges_linked w \<and> incidence_sound w)"

definition touches :: "dataflow \<Rightarrow> eref \<Rightarrow> port \<Rightarrow> bool" where
  "touches w e p = (source (edgeObj w e) = p \<or> target (edgeObj w e) = p)"

abbreviation removeEdges :: "dataflow \<Rightarrow> eref list \<Rightarrow> dataflow" where
  "removeEdges w es \<equiv> foldl (\<lambda>v e. removeEdge v e False) w es"

section \<open>Example collaborators and diagrams\<close>

text \<open>
  Modelled from the spec: one connectivity check of the kind the design describes. It
  orders the two ports as output and input, and refuses ports of one direction, ports of
  one node, and an input port that already has an edge.
\<close>

definition checkEdgeConnectivity :: check where
  "checkEdgeConnectivity w a b =
     (let s = (if isInput a then b else a);
          t = (if isInput a then a else b)
      in if isInput s \<or> \<not> isInput t then
           \<lparr>connectable = False, reason = ''an edge connects an output port to an input port''\<rparr>
         else if port_node s = port_node t then
           \<lparr>connectable = False, reason = ''cannot connect two ports of the same node''\<rparr>
         else if incident w t \<noteq> [] then
           \<lparr>connectable = False, reason = ''input port has already been connected''\<rparr>
         else \<lparr>connectable = True, reason = []\<rparr>)"

text \<open>
  Modelled from the spec: two finders. The first returns the first port of the node, on
  the side opposite to the given port, that the check accepts; the second returns the
  first port on the opposite side and leaves the check to the caller.
\<close>

definition findConnectablePort :: "check \<Rightarrow> finder" where
  "findConnectablePort chk w n p =
     find (\<lambda>q. connectable (if isInput p then chk w q p else chk w p q))
          (if isInput p then outputPorts (nodeObj w n) else inputPorts (nodeObj w n))"

definition findOppositePort :: finder where
  "findOppositePort w n p =
     find (\<lambda>q. True) (if isInput p then outputPorts (nodeObj w n) else inputPorts (nodeObj w n))"

text \<open>
  A registry with two kinds of node class: a data source has one output port, every other
  type has one input and one output port.
\<close>

definition example_registry :: registry where
  "example_registry t =
     (if t = ''data-source'' then
        \<lparr>ctor_nodeType = t, ctor_inputs = [], ctor_outputs = [''out''],
         ctor_isPropagationSource = True\<rparr>
      else
        \<lparr>ctor_nodeType = t, ctor_inputs = [''in''], ctor_outputs = [''out''],
         ctor_isPropagationSource = False\<rparr>)"

definition plain_options :: "string \<Rightarrow> bool \<Rightarrow> create_node_options" where
  "plain_options t act =
     \<lparr>opt_type = t, opt_dataflowX = None, opt_dataflowY = None,
      opt_dataflowCenterX = None, opt_dataflowCenterY = None, opt_activate = act\<rparr>"

definition blank_node :: node_obj where
  "blank_node =
     \<lparr>nodeId = [], nodeType = [], layer = 0, node_x = 0, node_y = 0,
      inputPorts = [], outputPorts = [], isSelected = False, isActive = False,
      isPropagationSource = False,
      dataOnCreate = \<lparr>data_dataflowX = None, data_dataflowY = None,
                      data_dataflowCenterX = None, data_dataflowCenterY = None\<rparr>\<rparr>"

definition initial_dataflow :: dataflow where
  "initial_dataflow =
     \<lparr>nodes = [], diagramName = [], numNodeLayers = 0, isDeserializing = False,
      nodeObj = (\<lambda>n. blank_node), incident = (\<lambda>p. []),
      edgeObj = (\<lambda>e. \<lparr>source = Port 0 False [], target = Port 0 True []\<rparr>),
      nextNode = 0, nextEdge = 0, canvasNodes = [], canvasEdges = [],
      messages = [], consoleErrors = [], propagations = [], historyCleared = 0\<rparr>"

text \<open>
  A diagram built with the helpers themselves: a data source (node 0, \<open>node-1\<close>) and a
  filter (node 1, \<open>node-2\<close>), both selected, joined by edge 0 from the output of the
  source to the input of the filter.
\<close>

definition source_and_filter :: dataflow where
  "source_and_filter =
     snd (createNode example_registry
            (snd (createNode example_registry initial_dataflow
                    (plain_options ''data-source'' True) None))
            (plain_options ''filter'' True) None)"

definition joined_pair :: dataflow where
  "joined_pair =
     snd (createEdge checkEdgeConnectivity source_and_filter
            (Port 0 False ''out'') (Port 1 True ''in'') False None)"

text \<open>The same diagram with a second, unconnected data source (node 2, \<open>node-3\<close>).\<close>

definition pair_and_source :: dataflow where
  "pair_and_source =
     snd (createNode example_registry joined_pair (plain_options ''data-source'' False) None)"

text \<open>The interaction manager at rest, with node 1 selected and node 2 hovered.\<close>

definition idle :: interaction where
  "idle =
     \<lparr>mouseMode = ''none'', mousedownPos = (0, 0), mouseupPos = (0, 0), mouselastPos = (0, 0),
      mouseMoved = False, selectbox_x1 = 0, selectbox_y1 = 0, shifted = False, ctrled = False,
      visualizationBlocking = True, dropPossible = False,
      dragstartPara = \<lparr>ptype = [], pevent = \<lparr>pageX = 0, pageY = 0\<rparr>, pnode = None,
                       pport = None\<rparr>,
      cursor = [], selectboxShown = False, nodesSelected = {1}, nodesHovered = {2},
      edgeHover = {}, edgeRequests = []\<rparr>"

definition background_at :: "int \<Rightarrow> int \<Rightarrow> para" where
  "background_at x y =
     \<lparr>ptype = ''background'', pevent = \<lparr>pageX = x, pageY = y\<rparr>, pnode = None, pport = None\<rparr>"

definition port_at :: "lport \<Rightarrow> para" where
  "port_at q =
     \<lparr>ptype = ''port'', pevent = \<lparr>pageX = 0, pageY = 0\<rparr>, pnode = None, pport = Some q\<rparr>"

text \<open>
  A run of the two node operations from the empty diagram. A node is created from
  options and, when a saved record is restored, from that record.
\<close>

datatype node_op =
  Create create_node_options "node_save option"
  | Remove nref bool

fun apply_op :: "registry \<Rightarrow> dataflow \<Rightarrow> node_op \<Rightarrow> dataflow" where
  "apply_op reg w (Create options nodeSave) = snd (createNode reg w options nodeSave)"
| "apply_op reg w (Remove n propagate) = snd (removeNode w n propagate)"

definition run_ops :: "registry \<Rightarrow> node_op list \<Rightarrow> dataflow" where
  "run_ops reg ops = foldl (apply_op reg) initial_dataflow ops"

fun without_save :: "node_op \<Rightarrow> bool" where
  "without_save (Create options nodeSave) = (nodeSave = None)"
| "without_save (Remove n propagate) = True"

definition saved_seven :: node_save where
  "saved_seven =
     \<lparr>save_id = ''node-7'', save_type = ''filter'', save_layer = 0,
      save_dataflowX = 0, save_dataflowY = 0\<rparr>"

text \<open>The joined pair with a second filter (node 2, \<open>node-3\<close>), not yet connected.\<close>

definition pair_and_filter :: dataflow where
  "pair_and_filter =
     snd (createNode example_registry joined_pair (plain_options ''filter'' False) None)"

text \<open>
  A registry in which a union has two input ports, and a diagram built with the helpers
  in which the data source (node 0, \<open>node-1\<close>) feeds both input ports of a union (node 1,
  \<open>node-2\<close>) through the edges 0 and 1, next to a second, unconnected data source (node 2,
  \<open>node-3\<close>).
\<close>

definition union_registry :: registry where
  "union_registry t =
     (if t = ''union'' then
        \<lparr>ctor_nodeType = t, ctor_inputs = [''in'', ''in2''], ctor_outputs = [''out''],
         ctor_isPropagationSource = False\<rparr>
      else example_registry t)"

definition source_and_union :: dataflow where
  "source_and_union =
     snd (createNode union_registry
            (snd (createNode union_registry initial_dataflow
                    (plain_options ''data-source'' False) None))
            (plain_options ''union'' False) None)"

definition doubly_joined :: dataflow where
  "doubly_joined =
     snd (createEdge checkEdgeConnectivity
            (snd (createEdge checkEdgeConnectivity source_and_union
                    (Port 0 False ''out'') (Port 1 True ''in'') False None))
            (Port 0 False ''out'') (Port 1 True ''in2'') False None)"

definition doubly_joined_and_source :: dataflow where
  "doubly_joined_and_source =
     snd (createNode union_registry doubly_joined (plain_options ''data-source'' False) None)"

text \<open>
  An edge is gone from a store when neither the canvas nor the incident edges of its two
  ports hold it. The stale check answers like the given check once the edge is gone and
  refuses every pair of ports while the edge is still there.
\<close>

definition edge_gone :: "dataflow \<Rightarrow> eref \<Rightarrow> bool" where
  "edge_gone v e =
     (e \<notin> set (canvasEdges v) \<and> e \<notin> set (incident v (source (edgeObj v e)))
      \<and> e \<notin> set (incident v (target (edgeObj v e))))"

definition stale_check :: "eref \<Rightarrow> check \<Rightarrow> check" where
  "stale_check e chk v a b =
     (if edge_gone v e then chk v a b
      else \<lparr>connectable = False, reason = ''the ports are already connected''\<rparr>)"

definition joins :: "dataflow \<Rightarrow> eref \<Rightarrow> nref \<Rightarrow> nref \<Rightarrow> bool" where
  "joins v x a b =
     (port_node (source (edgeObj v x)) = a \<and> port_node (target (edgeObj v x)) = b)"





section \<open>Properties of the interaction manager\<close>

lemma mouseup_selectbox_still:
  assumes "ptype p = ''background''" and "mouseMode s = ''selectbox''"
    and "pageX (pevent p) = fst (mousedownPos s)"
  shows "nodesSelected (mouseupHandler s p) = {}"
  using assms
  by (simp add: mouseupHandler_def keyReleased_def releaseKey_def clearEdgeHover_def Let_def
      clickHandler_def clearNodeSelection_def)

lemma mouseup_selectbox_moved:
  assumes "ptype p = ''background''" and "mouseMode s = ''selectbox''"
    and "pageX (pevent p) \<noteq> fst (mousedownPos s)"
  shows "nodesSelected (mouseupHandler s p)
           = (if ctrled s then nodesSelected s
              else if shifted s then nodesSelected s \<union> nodesHovered s
              else nodesHovered s)"
  using assms
  by (simp add: mouseupHandler_def keyReleased_def releaseKey_def clearEdgeHover_def Let_def
      clearNodeSelection_def addHoveredToSelection_def)

lemma pressed_state:
  "mouseMode (mousedownHandler idle (background_at 10 10)) = ''selectbox''"
  "mousedownPos (mousedownHandler idle (background_at 10 10)) = (10, 10)"
  "nodesSelected (mousedownHandler idle (background_at 10 10)) = {1}"
  "nodesHovered (mousedownHandler idle (background_at 10 10)) = {2}"
  "ctrled (mousedownHandler idle (background_at 10 10)) = False"
  "shifted (mousedownHandler idle (background_at 10 10)) = False"
  by (simp_all add: mousedownHandler_def idle_def background_at_def Let_def)

lemma background_at_sel [simp]:
  "ptype (background_at x y) = ''background''"
  "pageX (pevent (background_at x y)) = x"
  "pageY (pevent (background_at x y)) = y"
  by (simp_all add: background_at_def)

text \<open>
  C9. After every call of the mouse-up handler, whatever the mode, the type of the event
  target and the modifier flags were before, \<open>shifted\<close> and \<open>ctrled\<close> are false and the
  mode is \<open>none\<close>: no sequence of pointer events ends with a modifier held.
\<close>

theorem mouseup_forces_release:
  "shifted (mouseupHandler s p) = False \<and> ctrled (mouseupHandler s p) = False
     \<and> mouseMode (mouseupHandler s p) = ''none''"
  by (simp add: mouseupHandler_def keyReleased_def releaseKey_def clearEdgeHover_def Let_def)

text \<open>
  C8, as stated: a mouse-up on the background in mode \<open>selectbox\<close> is an empty click, which
  clears the selection, exactly when the pointer is not where it was at mouse-down. The
  statement fails for a press and release at (10, 10): the pointer has not moved and the
  selection is cleared. (A release at (10, 50), straight below the press, clears the
  selection as well, although node 2 is hovered and no modifier is held.)
\<close>

theorem selectbox_click_counterexample:
  "\<not> (nodesSelected (mouseupHandler (mousedownHandler idle (background_at 10 10))
                                      (background_at 10 10)) = {}
       \<longleftrightarrow> (10, 10) \<noteq> mousedownPos (mousedownHandler idle (background_at 10 10)))
   \<and> nodesSelected (mouseupHandler (mousedownHandler idle (background_at 10 10))
                                    (background_at 10 50)) = {}"
  by (simp add: mouseup_selectbox_still pressed_state)

text \<open>
  C8, amended. For a mouse-up on the background in mode \<open>selectbox\<close>: if the pointer is
  where it was at mouse-down, the gesture is an empty click and the selection is cleared;
  if the pointer has moved horizontally, the gesture is not an empty click: with \<open>ctrled\<close>
  the selection stays, otherwise it becomes the hovered set when \<open>shifted\<close> is false and
  the union of both when \<open>shifted\<close> is true.
\<close>

theorem selectbox_mouseup:
  assumes "ptype p = ''background''" and "mouseMode s = ''selectbox''"
  shows "(pageX (pevent p) = fst (mousedownPos s) \<and> pageY (pevent p) = snd (mousedownPos s)
            \<longrightarrow> nodesSelected (mouseupHandler s p) = {})
       \<and> (pageX (pevent p) \<noteq> fst (mousedownPos s)
            \<longrightarrow> nodesSelected (mouseupHandler s p)
                = (if ctrled s then nodesSelected s
                   else if shifted s then nodesSelected s \<union> nodesHovered s
                   else nodesHovered s))"
  using mouseup_selectbox_still [OF assms] mouseup_selectbox_moved [OF assms] by blast

theorem selectbox_mouseup_witness:
  "nodesSelected (mouseupHandler (mousedownHandler idle (background_at 10 10))
                                 (background_at 10 10)) = {}
   \<and> nodesSelected (mouseupHandler (mousedownHandler idle (background_at 10 10))
                                   (background_at 50 50)) = {2}
   \<and> nodesSelected (mouseupHandler ((mousedownHandler idle (background_at 10 10))\<lparr>shifted := True\<rparr>)
                                   (background_at 50 50)) = {1, 2}"
proof -
  have a: "mouseMode (mousedownHandler idle (background_at 10 10)) = ''selectbox''"
    and b: "mouseMode ((mousedownHandler idle (background_at 10 10))\<lparr>shifted := True\<rparr>)
              = ''selectbox''"
    by (simp_all add: pressed_state)
  have t: "ptype (background_at x y) = ''background''" for x y by simp
  show ?thesis
    using selectbox_mouseup [OF t a, of 10 10] selectbox_mouseup [OF t a, of 50 50]
      selectbox_mouseup [OF t b, of 50 50]
    by (simp add: pressed_state insert_commute)
qed

section \<open>What each helper changes\<close>

lemma removeEdge_sel [simp]:
  "nodes (removeEdge w e b) = nodes w"
  "nodeObj (removeEdge w e b) = nodeObj w"
  "edgeObj (removeEdge w e b) = edgeObj w"
  "messages (removeEdge w e b) = messages w"
  "consoleErrors (removeEdge w e b) = consoleErrors w"
  "propagations (removeEdge w e False) = propagations w"
  "canvasNodes (removeEdge w e b) = canvasNodes w"
  "canvasEdges (removeEdge w e b) = removeAll e (canvasEdges w)"
  "nextEdge (removeEdge w e b) = nextEdge w"
  "nextNode (removeEdge w e b) = nextNode w"
  "diagramName (removeEdge w e b) = diagramName w"
  by (simp_all add: removeEdge_def removeIncidentEdge_def canvas_removeEdge_def
      propagateNode_def Let_def)

lemma removeEdge_incident:
  "incident (removeEdge w e b) q =
     (if touches w e q then removeAll e (incident w q) else incident w q)"
  by (simp add: removeEdge_def removeIncidentEdge_def canvas_removeEdge_def propagateNode_def
      Let_def touches_def)

lemma removeEdges_sel [simp]:
  "nodes (removeEdges w es) = nodes w"
  "nodeObj (removeEdges w es) = nodeObj w"
  "edgeObj (removeEdges w es) = edgeObj w"
  "messages (removeEdges w es) = messages w"
  "consoleErrors (removeEdges w es) = consoleErrors w"
  "propagations (removeEdges w es) = propagations w"
  "canvasNodes (removeEdges w es) = canvasNodes w"
  "nextEdge (removeEdges w es) = nextEdge w"
  "nextNode (removeEdges w es) = nextNode w"
  "diagramName (removeEdges w es) = diagramName w"
  by (induction es arbitrary: w; simp)+

lemma removeEdges_canvasEdges:
  "canvasEdges (removeEdges w es) = filter (\<lambda>e. e \<notin> set es) (canvasEdges w)"
  by (induction es arbitrary: w) (auto simp: removeAll_filter_not_eq intro: filter_cong)

lemma removeEdges_incident:
  "incident (removeEdges w es) q =
     filter (\<lambda>e. \<not> (e \<in> set es \<and> touches w e q)) (incident w q)"
proof (induction es arbitrary: w)
  case Nil
  show ?case by simp
next
  case (Cons a es)
  have t: "touches (removeEdge w a False) e q = touches w e q" for e
    by (simp add: touches_def)
  show ?case
    by (auto simp: Cons.IH t removeEdge_incident removeAll_filter_not_eq intro: filter_cong)
qed

lemma removeNode_unfold:
  "removeNode w n propagate =
     (getAllEdges w n,
      canvas_removeNode
        ((if propagate then propagateNodes (removeEdges w (getAllEdges w n)) (getOutputNodes w n)
          else removeEdges w (getAllEdges w n))
         \<lparr>nodes := removeAll n (nodes w)\<rparr>) n)"
  by (simp add: removeNode_def Let_def propagateNodes_def)

lemma removeNode_sel [simp]:
  "nodes (snd (removeNode w n b)) = removeAll n (nodes w)"
  "nodeObj (snd (removeNode w n b)) = nodeObj w"
  "edgeObj (snd (removeNode w n b)) = edgeObj w"
  "messages (snd (removeNode w n b)) = messages w"
  "consoleErrors (snd (removeNode w n b)) = consoleErrors w"
  "canvasNodes (snd (removeNode w n b)) = removeAll n (canvasNodes w)"
  "nextEdge (snd (removeNode w n b)) = nextEdge w"
  "nextNode (snd (removeNode w n b)) = nextNode w"
  "propagations (snd (removeNode w n b)) =
     propagations w @ (if b then [PropagateNodes (getOutputNodes w n)] else [])"
  "canvasEdges (snd (removeNode w n b)) = filter (\<lambda>e. e \<notin> set (getAllEdges w n)) (canvasEdges w)"
  "incident (snd (removeNode w n b)) q =
     filter (\<lambda>e. \<not> (e \<in> set (getAllEdges w n) \<and> touches w e q)) (incident w q)"
  "fst (removeNode w n b) = getAllEdges w n"
  by (simp_all add: removeNode_unfold canvas_removeNode_def propagateNodes_def
      removeEdges_canvasEdges removeEdges_incident)

lemma createEdge_rejected:
  assumes "\<not> connectable (chk w sp tp)"
  shows "createEdge chk w sp tp propagate options =
           (None, if message_disabled options then w
                  else w\<lparr>messages := messages w @ [(reason (chk w sp tp), ''warn'')]\<rparr>)"
  using assms by (simp add: createEdge_def showSystemMessage_def Let_def)

lemma createEdge_accepted:
  assumes "connectable (chk w sp tp)"
  shows "createEdge chk w sp tp propagate options =
           (Some (nextEdge w),
            w\<lparr>edgeObj := (edgeObj w)(nextEdge w :=
                   \<lparr>source = (if \<not> isInput sp then sp else tp),
                    target = (if \<not> isInput sp then tp else sp)\<rparr>),
              nextEdge := Suc (nextEdge w),
              incident := ((incident w)(sp := incident w sp @ [nextEdge w]))
                            (tp := ((incident w)(sp := incident w sp @ [nextEdge w])) tp
                                     @ [nextEdge w]),
              canvasEdges := canvasEdges w @ [nextEdge w],
              propagations := propagations w @
                 (if propagate
                  then [PropagateNode (port_node (if \<not> isInput sp then tp else sp))]
                  else [])\<rparr>)"
  using assms
  by (simp add: createEdge_def addIncidentEdge_def canvas_addEdge_def propagateNode_def Let_def)

lemma createEdge_frame [simp]:
  "nodes (snd (createEdge chk w sp tp b opts)) = nodes w"
  "nodeObj (snd (createEdge chk w sp tp b opts)) = nodeObj w"
  "canvasNodes (snd (createEdge chk w sp tp b opts)) = canvasNodes w"
  "nextNode (snd (createEdge chk w sp tp b opts)) = nextNode w"
  "consoleErrors (snd (createEdge chk w sp tp b opts)) = consoleErrors w"
  "diagramName (snd (createEdge chk w sp tp b opts)) = diagramName w"
  by (cases "connectable (chk w sp tp)";
      simp add: createEdge_accepted [of chk w sp tp] createEdge_rejected [of chk w sp tp])+

lemma createNode_sel [simp]:
  "fst (createNode reg w opts sv) = nextNode w"
  "nodes (snd (createNode reg w opts sv)) = nodes w @ [nextNode w]"
  "canvasNodes (snd (createNode reg w opts sv)) = canvasNodes w @ [nextNode w]"
  "canvasEdges (snd (createNode reg w opts sv)) = canvasEdges w"
  "edgeObj (snd (createNode reg w opts sv)) = edgeObj w"
  "nextNode (snd (createNode reg w opts sv)) = Suc (nextNode w)"
  "nextEdge (snd (createNode reg w opts sv)) = nextEdge w"
  "messages (snd (createNode reg w opts sv)) = messages w"
  "propagations (snd (createNode reg w opts sv)) = propagations w"
  "diagramName (snd (createNode reg w opts sv)) = diagramName w"
  "incident (snd (createNode reg w opts sv)) p =
     (if port_node p = nextNode w then [] else incident w p)"
  by (simp_all add: createNode_def assignNodeId_def canvas_addNode_def node_select_def
      node_activate_def Let_def)

lemma createNode_nodeObj:
  "nodeObj (snd (createNode reg w opts sv)) m =
     (if m = nextNode w then
        (new_node (reg (opt_type opts)) (nextNode w) (assignNodeId_from (node_ids w) 1)
                  (getNodeDataOnCreate opts) sv)
          \<lparr>isSelected := opt_activate opts, isActive := opt_activate opts\<rparr>
      else nodeObj w m)"
  by (simp add: createNode_def assignNodeId_def canvas_addNode_def node_select_def
      node_activate_def Let_def new_node_def)

section \<open>The example diagrams, evaluated\<close>

lemma source_and_filter_fields:
  "nodes source_and_filter = [0, Suc 0]"
  "nextNode source_and_filter = Suc (Suc 0)"
  "nextEdge source_and_filter = 0"
  "canvasEdges source_and_filter = []"
  "incident source_and_filter p = []"
  "messages source_and_filter = []"
  "propagations source_and_filter = []"
  by (simp_all add: source_and_filter_def initial_dataflow_def)

lemma source_and_filter_nodes:
  "nodeObj source_and_filter 0 =
     \<lparr>nodeId = ''node-1'', nodeType = ''data-source'', layer = 0, node_x = 0, node_y = 0,
      inputPorts = [], outputPorts = [Port 0 False ''out''],
      isSelected = True, isActive = True, isPropagationSource = True,
      dataOnCreate = \<lparr>data_dataflowX = None, data_dataflowY = None,
                      data_dataflowCenterX = None, data_dataflowCenterY = None\<rparr>\<rparr>"
  "nodeObj source_and_filter (Suc 0) =
     \<lparr>nodeId = ''node-2'', nodeType = ''filter'', layer = 0, node_x = 0, node_y = 0,
      inputPorts = [Port (Suc 0) True ''in''], outputPorts = [Port (Suc 0) False ''out''],
      isSelected = True, isActive = True, isPropagationSource = False,
      dataOnCreate = \<lparr>data_dataflowX = None, data_dataflowY = None,
                      data_dataflowCenterX = None, data_dataflowCenterY = None\<rparr>\<rparr>"
  by (simp_all add: source_and_filter_def createNode_nodeObj initial_dataflow_def new_node_def
      example_registry_def plain_options_def getNodeDataOnCreate_def node_ids_def
      assignNodeId_from.simps node_name_def show_nat.simps digit_char_def)

lemma source_and_filter_check:
  "checkEdgeConnectivity source_and_filter (Port 0 False ''out'') (Port (Suc 0) True ''in'')
     = \<lparr>connectable = True, reason = []\<rparr>"
  "checkEdgeConnectivity source_and_filter (Port (Suc 0) True ''in'') (Port 0 False ''out'')
     = \<lparr>connectable = True, reason = []\<rparr>"
  by (simp_all add: checkEdgeConnectivity_def source_and_filter_fields)

lemma joined_pair_unfold:
  "joined_pair =
     source_and_filter
       \<lparr>edgeObj := (edgeObj source_and_filter)
                     (0 := \<lparr>source = Port 0 False ''out'', target = Port (Suc 0) True ''in''\<rparr>),
        nextEdge := Suc 0,
        incident := ((incident source_and_filter)(Port 0 False ''out'' := [0]))
                      (Port (Suc 0) True ''in'' := [0]),
        canvasEdges := [0],
        propagations := []\<rparr>"
  using createEdge_accepted
    [of checkEdgeConnectivity source_and_filter "Port 0 False ''out''"
        "Port (Suc 0) True ''in''" False None]
  by (simp add: joined_pair_def source_and_filter_check source_and_filter_fields)

lemma joined_pair_fields:
  "nodes joined_pair = [0, Suc 0]"
  "nodeObj joined_pair = nodeObj source_and_filter"
  "nextNode joined_pair = Suc (Suc 0)"
  "nextEdge joined_pair = Suc 0"
  "canvasEdges joined_pair = [0]"
  "edgeObj joined_pair 0 = \<lparr>source = Port 0 False ''out'', target = Port (Suc 0) True ''in''\<rparr>"
  "incident joined_pair p =
     (if p = Port (Suc 0) True ''in'' \<or> p = Port 0 False ''out'' then [0] else [])"
  "messages joined_pair = []"
  "propagations joined_pair = []"
  by (simp_all add: joined_pair_unfold source_and_filter_fields)

lemma joined_pair_check:
  "checkEdgeConnectivity joined_pair (Port 0 False ''out'') (Port (Suc 0) True ''in'')
     = \<lparr>connectable = False, reason = ''input port has already been connected''\<rparr>"
  by (simp add: checkEdgeConnectivity_def joined_pair_fields)

lemma joined_pair_well_formed: "well_formed joined_pair"
  by (simp add: well_formed_def ports_owned_def edges_linked_def incidence_sound_def
      node_ports_def joined_pair_fields source_and_filter_nodes)

section \<open>Creating edges\<close>

lemma dropHandler_request:
  assumes "ptype p = ''port''" and "dropPossible s"
    and "pport (dragstartPara s) = Some a" and "pport p = Some b"
  shows "dropHandler s p =
           Inr (s\<lparr>edgeRequests := edgeRequests s
                      @ [if isInPort a then (Some b, Some a) else (Some a, Some b)],
                   dropPossible := False\<rparr>)"
  using assms by (simp add: dropHandler_def manager_createEdge_def Let_def)

text \<open>
  C3. When the connectivity check fails, \<^verbatim>\<open>createEdge\<close> returns null; the edges of the
  diagram, the incident edges of every port and the edge objects are as before, no
  propagation is triggered, and one warning with the reason of the check is shown,
  unless \<^verbatim>\<open>options.disableMessage\<close> is set.
\<close>

theorem createEdge_failure_changes_nothing:
  assumes "\<not> connectable (chk w sp tp)"
    and "createEdge chk w sp tp propagate options = (r, w')"
  shows "r = None
       \<and> canvasEdges w' = canvasEdges w
       \<and> incident w' = incident w
       \<and> edgeObj w' = edgeObj w
       \<and> nextEdge w' = nextEdge w
       \<and> propagations w' = propagations w
       \<and> messages w' = (if message_disabled options then messages w
                         else messages w @ [(reason (chk w sp tp), ''warn'')])
       \<and> w' = (if message_disabled options then w
               else showSystemMessage w (reason (chk w sp tp)) ''warn'')"
  using assms(2) createEdge_rejected [of chk w sp tp propagate options] assms(1)
  by (auto simp: showSystemMessage_def)

theorem createEdge_failure_changes_nothing_witness:
  "\<not> connectable (checkEdgeConnectivity joined_pair (Port 0 False ''out'') (Port 1 True ''in''))
   \<and> fst (createEdge checkEdgeConnectivity joined_pair
             (Port 0 False ''out'') (Port 1 True ''in'') True None) = None
   \<and> canvasEdges (snd (createEdge checkEdgeConnectivity joined_pair
             (Port 0 False ''out'') (Port 1 True ''in'') True None)) = canvasEdges joined_pair
   \<and> messages (snd (createEdge checkEdgeConnectivity joined_pair
             (Port 0 False ''out'') (Port 1 True ''in'') True None))
       = messages joined_pair @ [(''input port has already been connected'', ''warn'')]
   \<and> snd (createEdge checkEdgeConnectivity joined_pair
             (Port 0 False ''out'') (Port 1 True ''in'') True
             (Some \<lparr>disableMessage = True\<rparr>)) = joined_pair"
proof -
  have n: "\<not> connectable (checkEdgeConnectivity joined_pair
                                 (Port 0 False ''out'') (Port 1 True ''in''))"
    by (simp add: joined_pair_check)
  show ?thesis
    using n
      createEdge_failure_changes_nothing
        [of checkEdgeConnectivity joined_pair "Port 0 False ''out''" "Port 1 True ''in''"
            True None, OF n surjective_pairing]
      createEdge_failure_changes_nothing
        [of checkEdgeConnectivity joined_pair "Port 0 False ''out''" "Port 1 True ''in''"
            True "Some \<lparr>disableMessage = True\<rparr>", OF n surjective_pairing]
    by (simp add: joined_pair_check message_disabled_def showSystemMessage_def)
qed

text \<open>
  C10. \<^verbatim>\<open>createEdgeToNode\<close> calls \<^verbatim>\<open>createEdge\<close> without its options. With
  \<^verbatim>\<open>disableMessage\<close> set, no message is shown when no port is found; but when a port is
  found and the connectivity check then fails, the warning of the check is shown all the
  same.
\<close>

theorem createEdgeToNode_drops_options:
  "(fcp w n sp = None \<longrightarrow>
      createEdgeToNode chk fcp w sp n propagate (Some \<lparr>disableMessage = True\<rparr>) = (None, w))
   \<and> (\<forall>tp. fcp w n sp = Some tp \<longrightarrow>
         createEdgeToNode chk fcp w sp n propagate options
           = createEdge chk w sp tp propagate None)
   \<and> (\<forall>tp. fcp w n sp = Some tp \<and> \<not> connectable (chk w sp tp) \<longrightarrow>
         createEdgeToNode chk fcp w sp n propagate (Some \<lparr>disableMessage = True\<rparr>)
           = (None, showSystemMessage w (reason (chk w sp tp)) ''warn''))"
  by (auto simp: createEdgeToNode_def message_disabled_def showSystemMessage_def
      createEdge_rejected [of chk w sp])

theorem createEdgeToNode_drops_options_witness:
  "findOppositePort joined_pair 1 (Port 0 False ''out'') = Some (Port 1 True ''in'')
   \<and> \<not> connectable (checkEdgeConnectivity joined_pair (Port 0 False ''out'') (Port 1 True ''in''))
   \<and> createEdgeToNode checkEdgeConnectivity findOppositePort joined_pair
        (Port 0 False ''out'') 1 False (Some \<lparr>disableMessage = True\<rparr>)
       = (None, showSystemMessage joined_pair ''input port has already been connected'' ''warn'')
   \<and> findOppositePort joined_pair 0 (Port 1 False ''out'') = None
   \<and> createEdgeToNode checkEdgeConnectivity findOppositePort joined_pair
        (Port 1 False ''out'') 0 False (Some \<lparr>disableMessage = True\<rparr>)
       = (None, joined_pair)"
proof -
  have f: "findOppositePort joined_pair (Suc 0) (Port 0 False ''out'')
             = Some (Port (Suc 0) True ''in'')"
    "findOppositePort joined_pair 0 (Port (Suc 0) False ''out'') = None"
    by (simp_all add: findOppositePort_def joined_pair_fields source_and_filter_nodes)
  show ?thesis
    using createEdgeToNode_drops_options
      [of findOppositePort joined_pair 1 "Port 0 False ''out''" checkEdgeConnectivity False None]
      createEdgeToNode_drops_options
      [of findOppositePort joined_pair 0 "Port 1 False ''out''" checkEdgeConnectivity False None]
    by (simp add: f joined_pair_check)
qed

text \<open>
  C7. Of an output port and an input port, an edge is stored from the output port to the
  input port whichever of the two the caller passes first: \<^verbatim>\<open>createEdge\<close> swaps its
  two ports when the given source is an input port, and the drop handler swaps the two
  ports of the drag before it asks for the edge when the drag started at an input port.
\<close>

theorem edges_run_from_output_to_input:
  "(isInput sp \<noteq> isInput tp \<and> createEdge chk w sp tp propagate options = (Some e, w') \<longrightarrow>
      \<not> isInput (source (edgeObj w' e)) \<and> isInput (target (edgeObj w' e))
      \<and> source (edgeObj w' e) = (if isInput sp then tp else sp)
      \<and> target (edgeObj w' e) = (if isInput sp then sp else tp))
   \<and> (ptype p = ''port'' \<and> dropPossible s \<and> pport (dragstartPara s) = Some a
        \<and> pport p = Some b \<and> isInPort a \<noteq> isInPort b \<longrightarrow>
        (\<exists>s' out inp. dropHandler s p = Inr s'
           \<and> edgeRequests s' = edgeRequests s @ [(Some out, Some inp)]
           \<and> \<not> isInPort out \<and> isInPort inp
           \<and> (out, inp) = (if isInPort a then (b, a) else (a, b))))"
proof (rule conjI; rule impI)
  assume h: "isInput sp \<noteq> isInput tp \<and> createEdge chk w sp tp propagate options = (Some e, w')"
  then have "connectable (chk w sp tp)"
    by (auto simp: createEdge_def Let_def split: if_splits)
  with h createEdge_accepted [of chk w sp tp propagate options]
  show "\<not> isInput (source (edgeObj w' e)) \<and> isInput (target (edgeObj w' e))
      \<and> source (edgeObj w' e) = (if isInput sp then tp else sp)
      \<and> target (edgeObj w' e) = (if isInput sp then sp else tp)"
    by auto
next
  assume h: "ptype p = ''port'' \<and> dropPossible s \<and> pport (dragstartPara s) = Some a
        \<and> pport p = Some b \<and> isInPort a \<noteq> isInPort b"
  then have "dropHandler s p =
           Inr (s\<lparr>edgeRequests := edgeRequests s
                      @ [if isInPort a then (Some b, Some a) else (Some a, Some b)],
                   dropPossible := False\<rparr>)"
    by (simp add: dropHandler_request)
  with h show "\<exists>s' out inp. dropHandler s p = Inr s'
           \<and> edgeRequests s' = edgeRequests s @ [(Some out, Some inp)]
           \<and> \<not> isInPort out \<and> isInPort inp
           \<and> (out, inp) = (if isInPort a then (b, a) else (a, b))"
    by (cases "isInPort a") auto
qed

theorem edges_run_from_output_to_input_witness:
  "source (edgeObj (snd (createEdge checkEdgeConnectivity source_and_filter
                           (Port 1 True ''in'') (Port 0 False ''out'') False None)) 0)
     = Port 0 False ''out''
   \<and> target (edgeObj (snd (createEdge checkEdgeConnectivity source_and_filter
                             (Port 1 True ''in'') (Port 0 False ''out'') False None)) 0)
     = Port 1 True ''in''
   \<and> (\<exists>s'. dropHandler
              (idle\<lparr>dropPossible := True,
                    dragstartPara := port_at \<lparr>lportId = ''in'', isInPort = True\<rparr>\<rparr>)
              (port_at \<lparr>lportId = ''out'', isInPort = False\<rparr>) = Inr s'
          \<and> edgeRequests s' = [(Some \<lparr>lportId = ''out'', isInPort = False\<rparr>,
                                 Some \<lparr>lportId = ''in'', isInPort = True\<rparr>)])"
proof -
  have c: "createEdge checkEdgeConnectivity source_and_filter
             (Port (Suc 0) True ''in'') (Port 0 False ''out'') False None
           = (Some 0, snd (createEdge checkEdgeConnectivity source_and_filter
             (Port (Suc 0) True ''in'') (Port 0 False ''out'') False None))"
    using createEdge_accepted [of checkEdgeConnectivity source_and_filter
                                  "Port (Suc 0) True ''in''" "Port 0 False ''out''" False None]
    by (simp add: source_and_filter_check source_and_filter_fields)
  show ?thesis
    using edges_run_from_output_to_input
      [of "Port 1 True ''in''" "Port 0 False ''out''" checkEdgeConnectivity source_and_filter
          False None 0
          "snd (createEdge checkEdgeConnectivity source_and_filter
                  (Port 1 True ''in'') (Port 0 False ''out'') False None)"
          "port_at \<lparr>lportId = ''out'', isInPort = False\<rparr>"
          "idle\<lparr>dropPossible := True,
                dragstartPara := port_at \<lparr>lportId = ''in'', isInPort = True\<rparr>\<rparr>"
          "\<lparr>lportId = ''in'', isInPort = True\<rparr>" "\<lparr>lportId = ''out'', isInPort = False\<rparr>"]
      c
    by (simp add: port_at_def idle_def)
qed

section \<open>Removing a node\<close>

lemma set_foldl_set_add: "set (foldl set_add acc xs) = set acc \<union> set xs"
  by (induction xs arbitrary: acc) (auto simp: set_add_def)

lemma incident_edges_of_node:
  assumes wf: "well_formed w" and n: "n \<in> set (nodes w)"
  shows "set (getAllEdges w n) =
           {e \<in> set (canvasEdges w). port_node (source (edgeObj w e)) = n
                                     \<or> port_node (target (edgeObj w e)) = n}"
proof (intro set_eqI iffI)
  fix e assume "e \<in> set (getAllEdges w n)"
  then obtain p where p: "p \<in> set (node_ports w n)" and e: "e \<in> set (incident w p)"
    by (auto simp: getAllEdges_def)
  from wf n p e have "e \<in> set (canvasEdges w)"
    and tp: "source (edgeObj w e) = p \<or> target (edgeObj w e) = p"
    by (auto simp: well_formed_def incidence_sound_def)
  moreover from wf n p have "port_node p = n"
    by (auto simp: well_formed_def ports_owned_def node_ports_def)
  ultimately show "e \<in> {e \<in> set (canvasEdges w). port_node (source (edgeObj w e)) = n
                                     \<or> port_node (target (edgeObj w e)) = n}"
    by auto
next
  fix e assume "e \<in> {e \<in> set (canvasEdges w). port_node (source (edgeObj w e)) = n
                                     \<or> port_node (target (edgeObj w e)) = n}"
  then have c: "e \<in> set (canvasEdges w)"
    and d: "port_node (source (edgeObj w e)) = n \<or> port_node (target (edgeObj w e)) = n"
    by auto
  from wf c have l:
    "source (edgeObj w e) \<in> set (outputPorts (nodeObj w (port_node (source (edgeObj w e)))))"
    "target (edgeObj w e) \<in> set (inputPorts (nodeObj w (port_node (target (edgeObj w e)))))"
    "e \<in> set (incident w (source (edgeObj w e)))"
    "e \<in> set (incident w (target (edgeObj w e)))"
    by (auto simp: well_formed_def edges_linked_def)
  from d show "e \<in> set (getAllEdges w n)"
  proof
    assume "port_node (source (edgeObj w e)) = n"
    with l(1,3) show ?thesis by (auto simp: getAllEdges_def node_ports_def)
  next
    assume "port_node (target (edgeObj w e)) = n"
    with l(2,4) show ?thesis by (auto simp: getAllEdges_def node_ports_def)
  qed
qed

lemma output_edges_of_node:
  assumes wf: "well_formed w" and n: "n \<in> set (nodes w)"
  shows "set (getOutputEdges w n) =
           {e \<in> set (canvasEdges w). port_node (source (edgeObj w e)) = n}"
proof (intro set_eqI iffI)
  fix e assume "e \<in> set (getOutputEdges w n)"
  then obtain p where p: "p \<in> set (outputPorts (nodeObj w n))" and e: "e \<in> set (incident w p)"
    by (auto simp: getOutputEdges_def)
  from p have p': "p \<in> set (node_ports w n)" by (simp add: node_ports_def)
  from wf n p' e have c: "e \<in> set (canvasEdges w)"
    and tp: "source (edgeObj w e) = p \<or> target (edgeObj w e) = p"
    by (auto simp: well_formed_def incidence_sound_def)
  from wf n p have o: "port_node p = n" "\<not> isInput p"
    by (auto simp: well_formed_def ports_owned_def)
  have "source (edgeObj w e) = p"
  proof (rule ccontr)
    assume "source (edgeObj w e) \<noteq> p"
    with tp have t: "target (edgeObj w e) = p" by simp
    from wf c
    have "target (edgeObj w e) \<in> set (inputPorts (nodeObj w (port_node (target (edgeObj w e)))))"
      by (auto simp: well_formed_def edges_linked_def)
    with t o have "p \<in> set (inputPorts (nodeObj w n))" by simp
    with wf n have "isInput p" by (auto simp: well_formed_def ports_owned_def)
    with o show False by simp
  qed
  with c o show "e \<in> {e \<in> set (canvasEdges w). port_node (source (edgeObj w e)) = n}" by simp
next
  fix e assume "e \<in> {e \<in> set (canvasEdges w). port_node (source (edgeObj w e)) = n}"
  then have c: "e \<in> set (canvasEdges w)" and d: "port_node (source (edgeObj w e)) = n" by auto
  from wf c have
    "source (edgeObj w e) \<in> set (outputPorts (nodeObj w (port_node (source (edgeObj w e)))))"
    "e \<in> set (incident w (source (edgeObj w e)))"
    by (auto simp: well_formed_def edges_linked_def)
  with d show "e \<in> set (getOutputEdges w n)" by (auto simp: getOutputEdges_def)
qed

lemma output_nodes_of_node:
  assumes "well_formed w" and "n \<in> set (nodes w)"
  shows "set (getOutputNodes w n) =
           {port_node (target (edgeObj w e)) | e.
              e \<in> set (canvasEdges w) \<and> port_node (source (edgeObj w e)) = n}"
  using output_edges_of_node [OF assms]
  by (auto simp: getOutputNodes_def set_foldl_set_add)

lemma joined_pair_edges:
  "getAllEdges joined_pair 0 = [0]"
  "getAllEdges joined_pair (Suc 0) = [0]"
  "getOutputEdges joined_pair 0 = [0]"
  "getOutputEdges joined_pair (Suc 0) = []"
  "getOutputNodes joined_pair 0 = [Suc 0]"
  "getOutputNodes joined_pair (Suc 0) = []"
  by (simp_all add: getAllEdges_def getOutputEdges_def getOutputNodes_def node_ports_def
      joined_pair_fields source_and_filter_nodes set_add_def)

text \<open>
  C2. In a diagram that satisfies the invariants of the data model, after
  \<^verbatim>\<open>removeNode(n, propagate)\<close> for a node \<open>n\<close> of the diagram and either value of
  \<open>propagate\<close>: no edge of the canvas and no incident edge of a port of the diagram
  references a port of \<open>n\<close>, the ports of \<open>n\<close> have no incident edge left, and \<open>n\<close> is no
  longer a node of the diagram; the removed edges returned are exactly the edges that were
  incident to \<open>n\<close>; and the propagation calls are the former ones followed, when
  \<open>propagate\<close> is true, by one call for the output neighbours of \<open>n\<close> as they were before
  any edge was removed, which are the owners of the targets of the edges leaving \<open>n\<close>.
  The edges go first: in the store left by the loop over the removed edges, \<open>n\<close> is still
  a node of the diagram and no edge of the canvas references it, and the final store has
  the edges and incident lists of that store.
\<close>

theorem removeNode_leaves_no_dangling_edge:
  assumes wf: "well_formed w" and n: "n \<in> set (nodes w)"
    and r: "removeNode w n propagate = (removedEdges, w')"
  shows "(\<forall>e\<in>set (canvasEdges w').
            port_node (source (edgeObj w' e)) \<noteq> n \<and> port_node (target (edgeObj w' e)) \<noteq> n)
       \<and> (\<forall>m\<in>set (nodes w). \<forall>p\<in>set (node_ports w' m). \<forall>e\<in>set (incident w' p).
            port_node (source (edgeObj w' e)) \<noteq> n \<and> port_node (target (edgeObj w' e)) \<noteq> n)
       \<and> (\<forall>p\<in>set (node_ports w' n). incident w' p = [])
       \<and> n \<notin> set (nodes w')
       \<and> set removedEdges =
            {e \<in> set (canvasEdges w). port_node (source (edgeObj w e)) = n
                                      \<or> port_node (target (edgeObj w e)) = n}
       \<and> propagations w' =
            propagations w @ (if propagate then [PropagateNodes (getOutputNodes w n)] else [])
       \<and> set (getOutputNodes w n) =
            {port_node (target (edgeObj w e)) | e.
               e \<in> set (canvasEdges w) \<and> port_node (source (edgeObj w e)) = n}
       \<and> n \<in> set (nodes (removeEdges w removedEdges))
       \<and> (\<forall>e\<in>set (canvasEdges (removeEdges w removedEdges)).
            port_node (source (edgeObj w e)) \<noteq> n \<and> port_node (target (edgeObj w e)) \<noteq> n)
       \<and> nodes w' = removeAll n (nodes (removeEdges w removedEdges))
       \<and> canvasEdges w' = canvasEdges (removeEdges w removedEdges)
       \<and> incident w' = incident (removeEdges w removedEdges)"
proof -
  from r have w': "w' = snd (removeNode w n propagate)"
    and re: "removedEdges = getAllEdges w n"
    by (simp_all add: removeNode_unfold)
  note inc = incident_edges_of_node [OF wf n]
  have sound: "e \<in> set (canvasEdges w) \<and> touches w e p"
    if "m \<in> set (nodes w)" "p \<in> set (node_ports w m)" "e \<in> set (incident w p)" for m p e
    using wf that by (auto simp: well_formed_def incidence_sound_def touches_def)
  have c1: "\<forall>e\<in>set (canvasEdges w').
            port_node (source (edgeObj w' e)) \<noteq> n \<and> port_node (target (edgeObj w' e)) \<noteq> n"
    using inc by (auto simp: w')
  have c2: "\<forall>m\<in>set (nodes w). \<forall>p\<in>set (node_ports w' m). \<forall>e\<in>set (incident w' p).
            port_node (source (edgeObj w' e)) \<noteq> n \<and> port_node (target (edgeObj w' e)) \<noteq> n"
  proof (intro ballI)
    fix m p e
    assume m: "m \<in> set (nodes w)" and p: "p \<in> set (node_ports w' m)"
      and e: "e \<in> set (incident w' p)"
    from p have p0: "p \<in> set (node_ports w m)" by (simp add: w' node_ports_def)
    from e have e0: "e \<in> set (incident w p)"
      and keep: "\<not> (e \<in> set (getAllEdges w n) \<and> touches w e p)"
      by (simp_all add: w')
    from sound [OF m p0 e0] keep have "e \<in> set (canvasEdges w)" "e \<notin> set (getAllEdges w n)"
      by auto
    with inc
    show "port_node (source (edgeObj w' e)) \<noteq> n \<and> port_node (target (edgeObj w' e)) \<noteq> n"
      by (auto simp: w')
  qed
  have c3: "\<forall>p\<in>set (node_ports w' n). incident w' p = []"
  proof
    fix p assume "p \<in> set (node_ports w' n)"
    then have p0: "p \<in> set (node_ports w n)" by (simp add: w' node_ports_def)
    have "e \<in> set (getAllEdges w n) \<and> touches w e p" if "e \<in> set (incident w p)" for e
      using sound [OF n p0 that] p0 that by (auto simp: getAllEdges_def)
    then show "incident w' p = []" by (auto simp: w' filter_empty_conv)
  qed
  have c4: "n \<notin> set (nodes w')" by (simp add: w')
  have c6: "propagations w' =
            propagations w @ (if propagate then [PropagateNodes (getOutputNodes w n)] else [])"
    by (simp add: w')
  have c7: "n \<in> set (nodes (removeEdges w (getAllEdges w n)))"
    "nodes w' = removeAll n (nodes (removeEdges w (getAllEdges w n)))"
    "canvasEdges w' = canvasEdges (removeEdges w (getAllEdges w n))"
    "incident w' = incident (removeEdges w (getAllEdges w n))"
    using n by (simp_all add: w' removeEdges_canvasEdges removeEdges_incident fun_eq_iff)
  have c8: "\<forall>e\<in>set (canvasEdges (removeEdges w (getAllEdges w n))).
            port_node (source (edgeObj w e)) \<noteq> n \<and> port_node (target (edgeObj w e)) \<noteq> n"
    using c1 unfolding c7(3) by (simp add: w')
  from c1 c2 c3 c4 inc c6 output_nodes_of_node [OF wf n] c7 c8 show ?thesis
    unfolding re by (intro conjI)
qed

theorem removeNode_leaves_no_dangling_edge_witness:
  "well_formed joined_pair \<and> 0 \<in> set (nodes joined_pair)
   \<and> fst (removeNode joined_pair 0 True) = [0]
   \<and> canvasEdges (snd (removeNode joined_pair 0 True)) = []
   \<and> incident (snd (removeNode joined_pair 0 True)) (Port 1 True ''in'') = []
   \<and> nodes (snd (removeNode joined_pair 0 True)) = [1]
   \<and> propagations (snd (removeNode joined_pair 0 True)) = [PropagateNodes [1]]
   \<and> propagations (snd (removeNode joined_pair 0 False)) = []"
proof -
  have n: "0 \<in> set (nodes joined_pair)" by (simp add: joined_pair_fields)
  show ?thesis
    using removeNode_leaves_no_dangling_edge
      [OF joined_pair_well_formed n surjective_pairing, of True]
      removeNode_leaves_no_dangling_edge
      [OF joined_pair_well_formed n surjective_pairing, of False]
    by (simp add: joined_pair_well_formed joined_pair_fields joined_pair_edges touches_def
        removeEdge_incident)
qed

section \<open>Removing the selected nodes\<close>

lemma set_foldl_frontier:
  "set (foldl (\<lambda>a t. if t \<notin> S then set_add a t else a) acc xs) = set acc \<union> (set xs - S)"
  by (induction xs arbitrary: acc) (auto simp: set_add_def)

lemma distinct_foldl_frontier:
  "distinct acc \<Longrightarrow> distinct (foldl (\<lambda>a t. if t \<notin> S then set_add a t else a) acc xs)"
  by (induction xs arbitrary: acc) (auto simp: set_add_def)

lemma set_foldl_frontiers:
  "set (foldl (\<lambda>acc n. foldl (\<lambda>a t. if t \<notin> S then set_add a t else a) acc (f n)) acc ns)
     = set acc \<union> ((\<Union>n\<in>set ns. set (f n)) - S)"
  by (induction ns arbitrary: acc) (auto simp: set_foldl_frontier)

lemma distinct_foldl_frontiers:
  "distinct acc \<Longrightarrow>
   distinct (foldl (\<lambda>acc n. foldl (\<lambda>a t. if t \<notin> S then set_add a t else a) acc (f n)) acc ns)"
  by (induction ns arbitrary: acc) (auto simp: distinct_foldl_frontier)

lemma frontier_empty: "\<forall>n\<in>A. f n \<subseteq> A \<Longrightarrow> (\<Union>n\<in>A. f n) - A = {}"
  by blast

lemma removeNodes_fold:
  "nodes (snd (foldl (\<lambda>a n. (fst a @ getAllEdges (snd a) n, snd (removeNode (snd a) n False)))
                     r ns)) = filter (\<lambda>n. n \<notin> set ns) (nodes (snd r))"
  "nodeObj (snd (foldl (\<lambda>a n. (fst a @ getAllEdges (snd a) n, snd (removeNode (snd a) n False)))
                       r ns)) = nodeObj (snd r)"
  "propagations (snd (foldl (\<lambda>a n. (fst a @ getAllEdges (snd a) n,
                                     snd (removeNode (snd a) n False))) r ns))
     = propagations (snd r)"
proof (induction ns arbitrary: r)
  case Nil
  {
    case 1 show ?case by simp
  next
    case 2 show ?case by simp
  next
    case 3 show ?case by simp
  }
next
  case (Cons a ns)
  {
    case 1 show ?case
      by (auto simp: Cons.IH(1) removeAll_filter_not_eq intro: filter_cong)
  next
    case 2 show ?case by (simp add: Cons.IH(2))
  next
    case 3 show ?case by (simp add: Cons.IH(3))
  }
qed

lemma removeSelectedNodes_unfold:
  "removeSelectedNodes w =
     ((filter (\<lambda>n. isSelected (nodeObj w n)) (nodes w),
       fst (foldl (\<lambda>a n. (fst a @ getAllEdges (snd a) n, snd (removeNode (snd a) n False)))
                  ([], w) (filter (\<lambda>n. isSelected (nodeObj w n)) (nodes w)))),
      propagateNodes
        (snd (foldl (\<lambda>a n. (fst a @ getAllEdges (snd a) n, snd (removeNode (snd a) n False)))
                    ([], w) (filter (\<lambda>n. isSelected (nodeObj w n)) (nodes w))))
        (foldl (\<lambda>acc n. foldl (\<lambda>a toNode.
                    if toNode \<notin> set (filter (\<lambda>n. isSelected (nodeObj w n)) (nodes w))
                    then set_add a toNode else a) acc (getOutputNodes w n)) []
               (filter (\<lambda>n. isSelected (nodeObj w n)) (nodes w))))"
proof -
  have "(\<lambda>(res, v) n. case removeNode v n False of (es, v') \<Rightarrow> (res @ es, v'))
          = (\<lambda>a n. (fst a @ getAllEdges (snd a) n, snd (removeNode (snd a) n False)))"
    by (simp add: fun_eq_iff case_prod_unfold)
  then show ?thesis
    by (simp only: removeSelectedNodes_def Let_def case_prod_unfold)
qed

text \<open>
  C5. \<^verbatim>\<open>removeSelectedNodes\<close> removes exactly the selected nodes of the diagram. It
  makes one propagation call, after the whole batch, and the nodes of that call are
  exactly the output neighbours of the removed nodes that are not removed themselves, each
  once. In particular, when every output neighbour of a removed node is removed too, as
  for two connected selected nodes that are each other's only neighbour, the call
  propagates no node.
\<close>

theorem removeSelectedNodes_propagates_frontier:
  assumes "removeSelectedNodes w = ((removedNodes, removedEdges), w')"
  shows "removedNodes = filter (\<lambda>n. isSelected (nodeObj w n)) (nodes w)
       \<and> nodes w' = filter (\<lambda>n. \<not> isSelected (nodeObj w n)) (nodes w)
       \<and> (\<exists>frontier. propagations w' = propagations w @ [PropagateNodes frontier]
             \<and> distinct frontier
             \<and> set frontier = (\<Union>n\<in>set removedNodes. set (getOutputNodes w n)) - set removedNodes
             \<and> ((\<forall>n\<in>set removedNodes. set (getOutputNodes w n) \<subseteq> set removedNodes)
                  \<longrightarrow> frontier = []))"
proof -
  let ?ns = "filter (\<lambda>n. isSelected (nodeObj w n)) (nodes w)"
  let ?fr = "foldl (\<lambda>acc n. foldl (\<lambda>a toNode. if toNode \<notin> set ?ns then set_add a toNode else a)
                              acc (getOutputNodes w n)) [] ?ns"
  let ?r = "foldl (\<lambda>a n. (fst a @ getAllEdges (snd a) n, snd (removeNode (snd a) n False)))
                    ([], w) ?ns"
  from assms have "removedNodes = fst (fst (removeSelectedNodes w))"
    and "w' = snd (removeSelectedNodes w)"
    by simp_all
  then have rn: "removedNodes = ?ns" and w': "w' = propagateNodes (snd ?r) ?fr"
    by (simp_all only: removeSelectedNodes_unfold fst_conv snd_conv)
  have n': "nodes w' = filter (\<lambda>n. \<not> isSelected (nodeObj w n)) (nodes w)"
    unfolding w' by (auto simp: propagateNodes_def removeNodes_fold intro: filter_cong)
  have p': "propagations w' = propagations w @ [PropagateNodes ?fr]"
    unfolding w' by (simp add: propagateNodes_def removeNodes_fold)
  have d: "distinct ?fr" by (rule distinct_foldl_frontiers) simp
  have s: "set ?fr = (\<Union>n\<in>set ?ns. set (getOutputNodes w n)) - set ?ns"
    using set_foldl_frontiers [of "set ?ns" "getOutputNodes w" "[]" ?ns]
    by (simp only: set_simps Un_empty_left)
  have e: "?fr = []" if "\<forall>n\<in>set ?ns. set (getOutputNodes w n) \<subseteq> set ?ns"
  proof -
    have "set ?fr = {}" unfolding s using that by (rule frontier_empty)
    then show ?thesis by (simp only: set_empty)
  qed
  have "\<exists>frontier. propagations w' = propagations w @ [PropagateNodes frontier]
             \<and> distinct frontier
             \<and> set frontier = (\<Union>n\<in>set ?ns. set (getOutputNodes w n)) - set ?ns
             \<and> ((\<forall>n\<in>set ?ns. set (getOutputNodes w n) \<subseteq> set ?ns)
                  \<longrightarrow> frontier = [])"
  proof (intro exI conjI impI)
    show "propagations w' = propagations w @ [PropagateNodes ?fr]" by (rule p')
    show "distinct ?fr" by (rule d)
    show "set ?fr = (\<Union>n\<in>set ?ns. set (getOutputNodes w n)) - set ?ns" by (rule s)
    show "?fr = []" if "\<forall>n\<in>set ?ns. set (getOutputNodes w n) \<subseteq> set ?ns"
      using that by (rule e)
  qed
  with n' show ?thesis unfolding rn by (intro conjI refl)
qed

theorem removeSelectedNodes_propagates_frontier_witness:
  "fst (fst (removeSelectedNodes joined_pair)) = [0, 1]
   \<and> nodes (snd (removeSelectedNodes joined_pair)) = []
   \<and> getOutputNodes joined_pair 0 = [1]
   \<and> getOutputNodes joined_pair 1 = []
   \<and> propagations (snd (removeSelectedNodes joined_pair)) = [PropagateNodes []]"
proof -
  have sel: "filter (\<lambda>n. isSelected (nodeObj joined_pair n)) (nodes joined_pair) = [0, Suc 0]"
    by (simp add: joined_pair_fields source_and_filter_nodes)
  show ?thesis
    using removeSelectedNodes_propagates_frontier
      [of joined_pair "fst (fst (removeSelectedNodes joined_pair))"
          "snd (fst (removeSelectedNodes joined_pair))" "snd (removeSelectedNodes joined_pair)"]
    by (auto simp: sel joined_pair_fields source_and_filter_nodes joined_pair_edges)
qed

section \<open>Node ids\<close>

lemma assignNodeId_from_least:
  "\<exists>j\<ge>k. assignNodeId_from ids k = node_name j \<and> node_name j \<notin> set ids
          \<and> (\<forall>i. k \<le> i \<and> i < j \<longrightarrow> node_name i \<in> set ids)"
proof (induction ids k rule: assignNodeId_from.induct)
  case (1 ids k)
  show ?case
  proof (cases "node_name k \<in> set ids")
    case False
    then have "assignNodeId_from ids k = node_name k"
      by (subst assignNodeId_from.simps) (simp add: Let_def)
    with False show ?thesis by (intro exI [of _ k]) auto
  next
    case True
    then have eq: "assignNodeId_from ids k = assignNodeId_from ids (Suc k)"
      by (subst assignNodeId_from.simps) (simp add: Let_def)
    from "1.IH" [OF refl] True
    obtain j where j: "Suc k \<le> j" "assignNodeId_from ids (Suc k) = node_name j"
      "node_name j \<notin> set ids" "\<forall>i. Suc k \<le> i \<and> i < j \<longrightarrow> node_name i \<in> set ids"
      by auto
    have "node_name i \<in> set ids" if "k \<le> i" "i < j" for i
    proof (cases "i = k")
      case True
      with \<open>node_name k \<in> set ids\<close> show ?thesis by simp
    next
      case False
      with that have "Suc k \<le> i" by simp
      with j(4) that show ?thesis by simp
    qed
    with j eq show ?thesis by (intro exI [of _ j]) auto
  qed
qed

lemma createNode_node_ids:
  assumes "\<forall>m\<in>set (nodes w). m < nextNode w"
  shows "node_ids (snd (createNode reg w opts sv))
           = node_ids w @ [case sv of None \<Rightarrow> assignNodeId_from (node_ids w) 1
                           | Some s \<Rightarrow> save_id s]"
  using assms by (cases sv) (auto simp: node_ids_def createNode_nodeObj new_node_def)

lemma removeNode_node_ids:
  "node_ids (snd (removeNode w n b)) = map (\<lambda>m. nodeId (nodeObj w m)) (removeAll n (nodes w))"
  by (simp add: node_ids_def)

lemma distinct_ids_removeAll:
  "distinct (map f xs) \<Longrightarrow> distinct (map f (removeAll x xs))"
  by (simp add: removeAll_filter_not_eq distinct_map_filter)

lemma run_ops_snoc: "run_ops reg (ops @ [op]) = apply_op reg (run_ops reg ops) op"
  by (simp add: run_ops_def)

lemma run_ops_invariant:
  assumes "\<forall>op\<in>set ops. without_save op"
  shows "distinct (node_ids (run_ops reg ops))
       \<and> (\<forall>m\<in>set (nodes (run_ops reg ops)). m < nextNode (run_ops reg ops))"
  using assms
proof (induction ops rule: rev_induct)
  case Nil
  show ?case by (simp add: run_ops_def initial_dataflow_def node_ids_def)
next
  case (snoc op ops)
  then have d: "distinct (node_ids (run_ops reg ops))"
    and b: "\<forall>m\<in>set (nodes (run_ops reg ops)). m < nextNode (run_ops reg ops)"
    and o: "without_save op"
    by simp_all
  show ?case
  proof (cases op)
    case (Create opts sv)
    with o have sv: "sv = None" by simp
    from assignNodeId_from_least [of 1 "node_ids (run_ops reg ops)"]
    have "assignNodeId_from (node_ids (run_ops reg ops)) 1 \<notin> set (node_ids (run_ops reg ops))"
      by auto
    with d b show ?thesis
      by (auto simp: run_ops_snoc Create sv createNode_node_ids less_Suc_eq)
  next
    case (Remove n p)
    with d b show ?thesis
      by (auto simp: run_ops_snoc removeNode_node_ids node_ids_def distinct_ids_removeAll)
  qed
qed

text \<open>
  C6, as stated: after every sequence of \<^verbatim>\<open>createNode\<close> and \<^verbatim>\<open>removeNode\<close> calls from the
  empty diagram the node ids are pairwise distinct, and each \<^verbatim>\<open>createNode\<close> assigns the
  first unused \<open>node-n\<close>. The statement fails for \<^verbatim>\<open>createNode\<close> with a saved record,
  whose id replaces the assigned one: restoring the record \<open>node-7\<close> gives the first node
  the id \<open>node-7\<close>, not \<open>node-1\<close>, and restoring it twice gives two nodes the same id.
\<close>

theorem node_ids_counterexample:
  "node_ids (run_ops example_registry
               [Create (plain_options ''filter'' False) (Some saved_seven)]) = [''node-7'']
   \<and> node_name 1 = ''node-1''
   \<and> \<not> distinct (node_ids (run_ops example_registry
                       [Create (plain_options ''filter'' False) (Some saved_seven),
                        Create (plain_options ''filter'' False) (Some saved_seven)]))"
  by (simp add: run_ops_def node_ids_def createNode_nodeObj new_node_def initial_dataflow_def
      saved_seven_def node_name_def show_nat.simps digit_char_def)

text \<open>
  C6, amended. After every sequence of \<^verbatim>\<open>removeNode\<close> calls and \<^verbatim>\<open>createNode\<close> calls
  without a saved record, from the empty diagram, the node ids are pairwise distinct, and
  a further \<^verbatim>\<open>createNode\<close> without a saved record gives the new node the id \<open>node-k\<close> for
  the smallest \<open>k \<ge> 1\<close> such that \<open>node-k\<close> is not the id of a node of the diagram.
\<close>

theorem node_ids_unique_and_smallest:
  assumes "\<forall>op\<in>set ops. without_save op"
    and "createNode reg (run_ops reg ops) opts None = (n, w')"
  shows "distinct (node_ids (run_ops reg ops))
       \<and> distinct (node_ids w')
       \<and> (\<exists>k\<ge>1. nodeId (nodeObj w' n) = node_name k
              \<and> node_name k \<notin> set (node_ids (run_ops reg ops))
              \<and> (\<forall>j. 1 \<le> j \<and> j < k \<longrightarrow> node_name j \<in> set (node_ids (run_ops reg ops))))"
proof -
  from assms(2) have n: "n = nextNode (run_ops reg ops)"
    and w': "w' = snd (createNode reg (run_ops reg ops) opts None)"
    using createNode_sel(1) [of reg "run_ops reg ops" opts None] by simp_all
  have "\<forall>op\<in>set (ops @ [Create opts None]). without_save op"
    using assms(1) by simp
  from run_ops_invariant [OF this, of reg] have d': "distinct (node_ids w')"
    by (simp add: run_ops_snoc w')
  have i: "nodeId (nodeObj w' n) = assignNodeId_from (node_ids (run_ops reg ops)) 1"
    by (simp add: n w' createNode_nodeObj new_node_def)
  from run_ops_invariant [OF assms(1), of reg] d' i
    assignNodeId_from_least [of 1 "node_ids (run_ops reg ops)"]
  show ?thesis by simp
qed

theorem node_ids_unique_and_smallest_witness:
  "node_ids (run_ops example_registry
               [Create (plain_options ''data-source'' False) None,
                Create (plain_options ''filter'' False) None,
                Remove 0 False]) = [''node-2'']
   \<and> nodeId (nodeObj (snd (createNode example_registry
               (run_ops example_registry
                  [Create (plain_options ''data-source'' False) None,
                   Create (plain_options ''filter'' False) None,
                   Remove 0 False])
               (plain_options ''filter'' False) None)) 2) = ''node-1''
   \<and> distinct (node_ids (snd (createNode example_registry
               (run_ops example_registry
                  [Create (plain_options ''data-source'' False) None,
                   Create (plain_options ''filter'' False) None,
                   Remove 0 False])
               (plain_options ''filter'' False) None)))"
proof -
  let ?ops = "[Create (plain_options ''data-source'' False) None,
               Create (plain_options ''filter'' False) None,
               Remove 0 False]"
  have a: "\<forall>op\<in>set ?ops. without_save op" by simp
  have n: "nextNode (run_ops example_registry ?ops) = 2"
    by (simp add: run_ops_def initial_dataflow_def)
  have ids: "node_ids (run_ops example_registry ?ops) = [''node-2'']"
    by (simp add: run_ops_def node_ids_def createNode_nodeObj new_node_def initial_dataflow_def
        assignNodeId_from.simps node_name_def show_nat.simps digit_char_def)
  have c: "createNode example_registry (run_ops example_registry ?ops)
             (plain_options ''filter'' False) None
           = (2, snd (createNode example_registry (run_ops example_registry ?ops)
                        (plain_options ''filter'' False) None))"
    using createNode_sel(1) [of example_registry "run_ops example_registry ?ops"
                                "plain_options ''filter'' False" None] n
    by (metis prod.collapse)
  have i: "nodeId (nodeObj (snd (createNode example_registry (run_ops example_registry ?ops)
             (plain_options ''filter'' False) None)) 2) = ''node-1''"
    using n
    by (simp add: createNode_nodeObj new_node_def ids
        assignNodeId_from.simps node_name_def show_nat.simps digit_char_def)
  from node_ids_unique_and_smallest [OF a c] ids i show ?thesis by simp
qed

section \<open>Inserting a node on an edge\<close>

lemma createEdge_cong:
  "chk w sp tp = chk' w sp tp \<Longrightarrow>
   createEdge chk w sp tp b opts = createEdge chk' w sp tp b opts"
  by (simp add: createEdge_def)

lemma createEdgeToNode_cong:
  assumes "fcp w n sp = fcp' w n sp" and "\<And>tp. chk w sp tp = chk' w sp tp"
  shows "createEdgeToNode chk fcp w sp n b opts = createEdgeToNode chk' fcp' w sp n b opts"
  using assms by (auto simp: createEdgeToNode_def createEdge_def split: option.splits)

lemma createEdge_fst:
  "connectable (chk w sp tp) \<Longrightarrow> fst (createEdge chk w sp tp b opts) = Some (nextEdge w)"
  by (simp add: createEdge_def Let_def)

lemma edge_gone_removeEdge: "edge_gone (removeEdge w e b) e"
  by (simp add: edge_gone_def removeEdge_incident touches_def)

lemma edge_gone_createEdge:
  assumes "edge_gone w e" and "e < nextEdge w"
  shows "edge_gone (snd (createEdge chk w sp tp b opts)) e
       \<and> e < nextEdge (snd (createEdge chk w sp tp b opts))"
proof (cases "connectable (chk w sp tp)")
  case True
  with assms show ?thesis
    by (auto simp: createEdge_accepted [of chk w sp tp] edge_gone_def)
next
  case False
  with assms show ?thesis
    by (simp add: createEdge_rejected [of chk w sp tp] edge_gone_def)
qed

lemma edge_gone_createEdgeToNode:
  assumes "edge_gone w e" and "e < nextEdge w"
  shows "edge_gone (snd (createEdgeToNode chk fcp w sp n b opts)) e
       \<and> e < nextEdge (snd (createEdgeToNode chk fcp w sp n b opts))"
proof (cases "fcp w n sp")
  case None
  with assms show ?thesis
    by (simp add: createEdgeToNode_def edge_gone_def showSystemMessage_def)
next
  case (Some tp)
  with edge_gone_createEdge [OF assms, of chk sp tp b None] show ?thesis
    by (simp add: createEdgeToNode_def)
qed

lemma createEdgeToNode_None:
  assumes "createEdgeToNode chk fcp w sp n b opts = (None, w2)"
  shows "\<exists>ms. w2 = w\<lparr>messages := ms\<rparr>"
proof (cases "fcp w n sp")
  case None
  with assms have "w2 = w \<or> w2 = w\<lparr>messages := messages w
                     @ [(''cannot find available port to connect'', ''warn'')]\<rparr>"
    by (auto simp: createEdgeToNode_def showSystemMessage_def split: if_splits)
  then show ?thesis
  proof
    assume "w2 = w"
    then have "w2 = w\<lparr>messages := messages w\<rparr>" by simp
    then show ?thesis ..
  next
    assume "w2 = w\<lparr>messages := messages w
                     @ [(''cannot find available port to connect'', ''warn'')]\<rparr>"
    then show ?thesis ..
  qed
next
  case (Some tp)
  with assms have c: "createEdge chk w sp tp b None = (None, w2)"
    by (simp add: createEdgeToNode_def)
  then have "\<not> connectable (chk w sp tp)"
    by (auto simp: createEdge_def Let_def split: if_splits)
  with c createEdge_rejected [of chk w sp tp b None]
  have "w2 = w\<lparr>messages := messages w @ [(reason (chk w sp tp), ''warn'')]\<rparr>"
    by (simp add: message_disabled_def)
  then show ?thesis ..
qed

lemma createEdgeToNode_quiet_propagations:
  "propagations (snd (createEdgeToNode chk fcp w sp n False opts)) = propagations w"
proof (cases "fcp w n sp")
  case None
  then show ?thesis by (simp add: createEdgeToNode_def showSystemMessage_def)
next
  case (Some tp)
  then show ?thesis
    by (cases "connectable (chk w sp tp)")
       (simp_all add: createEdgeToNode_def createEdge_accepted [of chk w sp tp]
          createEdge_rejected [of chk w sp tp] message_disabled_def)
qed

lemma createEdge_quiet_propagations:
  "propagations (snd (createEdge chk w sp tp False opts)) = propagations w"
  by (cases "connectable (chk w sp tp)")
     (simp_all add: createEdge_accepted [of chk w sp tp] createEdge_rejected [of chk w sp tp])

lemma insertNodeOnEdge_none:
  assumes "fcp (removeEdge w e False) n (target (edgeObj w e)) = None"
  shows "insertNodeOnEdge chk fcp w n e = (([], e), removeEdge w e False)"
  using assms by (simp add: insertNodeOnEdge_def Let_def)

lemma insertNodeOnEdge_some:
  assumes "fcp (removeEdge w e False) n (target (edgeObj w e)) = Some outPort"
    and "createEdgeToNode chk fcp (removeEdge w e False) (source (edgeObj w e)) n False
           (Some \<lparr>disableMessage = True\<rparr>) = (r1, w2)"
    and "createEdge chk w2 outPort (target (edgeObj w e)) False
           (Some \<lparr>disableMessage = True\<rparr>) = (r2, w3)"
  shows "insertNodeOnEdge chk fcp w n e =
           ((List.map_filter (\<lambda>r. r) [r1, r2], e),
            (if r1 \<noteq> None then propagatePort w3 (source (edgeObj w e))
             else if r2 \<noteq> None then propagateNode w3 n else w3))"
  using assms by (simp add: insertNodeOnEdge_def Let_def)

lemma insertNodeOnEdge_checks_after_removal:
  assumes e: "e < nextEdge w"
    and chk: "\<And>v a b. edge_gone v e \<Longrightarrow> chk' v a b = chk v a b"
    and fcp: "\<And>v m p. edge_gone v e \<Longrightarrow> fcp' v m p = fcp v m p"
  shows "insertNodeOnEdge chk' fcp' w n e = insertNodeOnEdge chk fcp w n e"
proof -
  let ?w1 = "removeEdge w e False"
  let ?quiet = "Some \<lparr>disableMessage = True\<rparr>"
  have g1: "edge_gone ?w1 e" by (rule edge_gone_removeEdge)
  have e1: "e < nextEdge ?w1" using e by simp
  have f: "fcp' ?w1 n (target (edgeObj w e)) = fcp ?w1 n (target (edgeObj w e))"
    by (rule fcp [OF g1])
  show ?thesis
  proof (cases "fcp ?w1 n (target (edgeObj w e))")
    case None
    with f show ?thesis by (simp add: insertNodeOnEdge_none)
  next
    case (Some outPort)
    have up: "createEdgeToNode chk' fcp' ?w1 (source (edgeObj w e)) n False ?quiet
                = createEdgeToNode chk fcp ?w1 (source (edgeObj w e)) n False ?quiet"
      by (rule createEdgeToNode_cong) (simp_all add: fcp [OF g1] chk [OF g1])
    obtain r1 w2 where r1: "createEdgeToNode chk fcp ?w1 (source (edgeObj w e)) n False ?quiet
                              = (r1, w2)"
      by (cases "createEdgeToNode chk fcp ?w1 (source (edgeObj w e)) n False ?quiet")
    from edge_gone_createEdgeToNode [OF g1 e1, of chk fcp "source (edgeObj w e)" n False ?quiet]
      r1
    have g2: "edge_gone w2 e" by simp
    have down: "createEdge chk' w2 outPort (target (edgeObj w e)) False ?quiet
                  = createEdge chk w2 outPort (target (edgeObj w e)) False ?quiet"
      by (rule createEdge_cong) (rule chk [OF g2])
    obtain r2 w3 where r2: "createEdge chk w2 outPort (target (edgeObj w e)) False ?quiet
                              = (r2, w3)"
      by (cases "createEdge chk w2 outPort (target (edgeObj w e)) False ?quiet")
    from Some f have Some': "fcp' ?w1 n (target (edgeObj w e)) = Some outPort" by simp
    have "insertNodeOnEdge chk fcp w n e =
            ((List.map_filter (\<lambda>r. r) [r1, r2], e),
             (if r1 \<noteq> None then propagatePort w3 (source (edgeObj w e))
              else if r2 \<noteq> None then propagateNode w3 n else w3))"
      using insertNodeOnEdge_some [of fcp w e n outPort chk r1 w2 r2 w3] Some r1 r2 by simp
    moreover have "insertNodeOnEdge chk' fcp' w n e =
            ((List.map_filter (\<lambda>r. r) [r1, r2], e),
             (if r1 \<noteq> None then propagatePort w3 (source (edgeObj w e))
              else if r2 \<noteq> None then propagateNode w3 n else w3))"
      using insertNodeOnEdge_some [of fcp' w e n outPort chk' r1 w2 r2 w3] Some' up r1 down r2
      by simp
    ultimately show ?thesis by simp
  qed
qed

lemma insertNodeOnEdge_upstream:
  assumes "fcp (removeEdge w e False) n (target (edgeObj w e)) = Some outPort"
    and "createEdgeToNode chk fcp (removeEdge w e False) (source (edgeObj w e)) n False
           (Some \<lparr>disableMessage = True\<rparr>) = (Some e1, w2)"
  shows "propagations (snd (insertNodeOnEdge chk fcp w n e))
           = propagations w @ [PropagatePort (source (edgeObj w e))]
       \<and> e1 \<in> set (fst (fst (insertNodeOnEdge chk fcp w n e)))"
proof -
  let ?quiet = "Some \<lparr>disableMessage = True\<rparr>"
  obtain r2 w3 where r2: "createEdge chk w2 outPort (target (edgeObj w e)) False ?quiet
                            = (r2, w3)"
    by (cases "createEdge chk w2 outPort (target (edgeObj w e)) False ?quiet")
  have p2: "propagations w2 = propagations w"
    using createEdgeToNode_quiet_propagations
      [of chk fcp "removeEdge w e False" "source (edgeObj w e)" n ?quiet] assms(2)
    by simp
  have p3: "propagations w3 = propagations w2"
    using createEdge_quiet_propagations [of chk w2 outPort "target (edgeObj w e)" ?quiet] r2
    by simp
  show ?thesis
    using insertNodeOnEdge_some [of fcp w e n outPort chk "Some e1" w2 r2 w3] assms r2
    by (simp add: propagatePort_def p2 p3 List.map_filter_simps)
qed

lemma insertNodeOnEdge_downstream_only:
  assumes alloc: "\<forall>x\<in>set (canvasEdges w). x < nextEdge w" and e: "e \<in> set (canvasEdges w)"
    and out: "fcp (removeEdge w e False) n (target (edgeObj w e)) = Some outPort"
    and dir: "\<not> isInput outPort"
    and up: "createEdgeToNode chk fcp (removeEdge w e False) (source (edgeObj w e)) n False
           (Some \<lparr>disableMessage = True\<rparr>) = (None, w2)"
    and ok: "connectable (chk w2 outPort (target (edgeObj w e)))"
  shows "\<exists>e' w'. insertNodeOnEdge chk fcp w n e = (([e'], e), w')
           \<and> e' \<noteq> e
           \<and> edgeObj w' e' = \<lparr>source = outPort, target = target (edgeObj w e)\<rparr>
           \<and> set (canvasEdges w') = insert e' (set (canvasEdges w) - {e})
           \<and> e \<notin> set (incident w' (source (edgeObj w e)))
           \<and> e \<notin> set (incident w' (target (edgeObj w e)))
           \<and> propagations w' = propagations w @ [PropagateNode n]
           \<and> ((\<forall>x\<in>set (canvasEdges w). x \<noteq> e \<longrightarrow>
                   \<not> joins w x (port_node (source (edgeObj w e))) (port_node (target (edgeObj w e))))
                \<and> port_node outPort \<noteq> port_node (source (edgeObj w e))
               \<longrightarrow> (\<forall>x\<in>set (canvasEdges w').
                   \<not> joins w' x (port_node (source (edgeObj w e)))
                                 (port_node (target (edgeObj w e)))))"
proof -
  let ?w1 = "removeEdge w e False"
  let ?quiet = "Some \<lparr>disableMessage = True\<rparr>"
  let ?tgt = "target (edgeObj w e)"
  let ?src = "source (edgeObj w e)"
  from createEdgeToNode_None [OF up] obtain ms where w2: "w2 = ?w1\<lparr>messages := ms\<rparr>" ..
  from e alloc have lt: "e < nextEdge w" by simp
  let ?w3 = "snd (createEdge chk w2 outPort ?tgt False ?quiet)"
  have r2: "createEdge chk w2 outPort ?tgt False ?quiet = (Some (nextEdge w), ?w3)"
    using createEdge_accepted [of chk w2 outPort ?tgt False ?quiet] ok by (simp add: w2)
  have res: "insertNodeOnEdge chk fcp w n e = (([nextEdge w], e), propagateNode ?w3 n)"
    using insertNodeOnEdge_some [of fcp w e n outPort chk None w2 "Some (nextEdge w)" ?w3]
      out up r2
    by (simp add: List.map_filter_simps)
  have obj: "edgeObj (propagateNode ?w3 n) =
               (edgeObj w)(nextEdge w := \<lparr>source = outPort, target = ?tgt\<rparr>)"
    using createEdge_accepted [of chk w2 outPort ?tgt False ?quiet] ok dir
    by (simp add: w2 propagateNode_def)
  have cv: "canvasEdges (propagateNode ?w3 n) = removeAll e (canvasEdges w) @ [nextEdge w]"
    using createEdge_accepted [of chk w2 outPort ?tgt False ?quiet] ok
    by (simp add: w2 propagateNode_def)
  have inc: "incident (propagateNode ?w3 n) =
               ((incident ?w1)(outPort := incident ?w1 outPort @ [nextEdge w]))
                 (?tgt := ((incident ?w1)(outPort := incident ?w1 outPort @ [nextEdge w])) ?tgt
                            @ [nextEdge w])"
    using createEdge_accepted [of chk w2 outPort ?tgt False ?quiet] ok
    by (simp add: w2 propagateNode_def)
  have pr: "propagations (propagateNode ?w3 n) = propagations w @ [PropagateNode n]"
    using createEdge_accepted [of chk w2 outPort ?tgt False ?quiet] ok
    by (simp add: w2 propagateNode_def)
  have gone: "e \<notin> set (incident (propagateNode ?w3 n) ?src)"
    "e \<notin> set (incident (propagateNode ?w3 n) ?tgt)"
    using lt by (auto simp: inc removeEdge_incident touches_def)
  have nj: "\<forall>x\<in>set (canvasEdges (propagateNode ?w3 n)).
              \<not> joins (propagateNode ?w3 n) x (port_node ?src) (port_node ?tgt)"
    if a: "\<forall>x\<in>set (canvasEdges w). x \<noteq> e \<longrightarrow> \<not> joins w x (port_node ?src) (port_node ?tgt)"
      and b: "port_node outPort \<noteq> port_node ?src"
  proof
    fix x assume "x \<in> set (canvasEdges (propagateNode ?w3 n))"
    then have "x = nextEdge w \<or> (x \<in> set (canvasEdges w) \<and> x \<noteq> e)" by (auto simp: cv)
    then show "\<not> joins (propagateNode ?w3 n) x (port_node ?src) (port_node ?tgt)"
    proof
      assume "x = nextEdge w"
      with b show ?thesis by (simp add: joins_def obj)
    next
      assume x: "x \<in> set (canvasEdges w) \<and> x \<noteq> e"
      with alloc have "x \<noteq> nextEdge w" by auto
      with a x show ?thesis by (simp add: joins_def obj)
    qed
  qed
  have "insertNodeOnEdge chk fcp w n e = (([nextEdge w], e), propagateNode ?w3 n)
           \<and> nextEdge w \<noteq> e
           \<and> edgeObj (propagateNode ?w3 n) (nextEdge w) = \<lparr>source = outPort, target = ?tgt\<rparr>
           \<and> set (canvasEdges (propagateNode ?w3 n)) = insert (nextEdge w) (set (canvasEdges w) - {e})
           \<and> e \<notin> set (incident (propagateNode ?w3 n) ?src)
           \<and> e \<notin> set (incident (propagateNode ?w3 n) ?tgt)
           \<and> propagations (propagateNode ?w3 n) = propagations w @ [PropagateNode n]
           \<and> ((\<forall>x\<in>set (canvasEdges w). x \<noteq> e \<longrightarrow>
                   \<not> joins w x (port_node ?src) (port_node ?tgt))
                \<and> port_node outPort \<noteq> port_node ?src
               \<longrightarrow> (\<forall>x\<in>set (canvasEdges (propagateNode ?w3 n)).
                   \<not> joins (propagateNode ?w3 n) x (port_node ?src) (port_node ?tgt)))"
    using res lt gone pr nj by (auto simp: obj cv)
  then show ?thesis by blast
qed

lemma joined_pair_next: "nextNode joined_pair = 2"
  by (simp add: joined_pair_fields)

lemma pair_and_source_ports:
  "inputPorts (nodeObj pair_and_source 2) = []"
  "outputPorts (nodeObj pair_and_source 2) = [Port 2 False ''out'']"
  by (simp_all add: pair_and_source_def createNode_nodeObj joined_pair_next new_node_def
      example_registry_def plain_options_def)

lemma pair_and_filter_ports:
  "inputPorts (nodeObj pair_and_filter 2) = [Port 2 True ''in'']"
  "outputPorts (nodeObj pair_and_filter 2) = [Port 2 False ''out'']"
  by (simp_all add: pair_and_filter_def createNode_nodeObj joined_pair_next new_node_def
      example_registry_def plain_options_def)

lemma cut_fields:
  assumes "w = snd (createNode example_registry joined_pair opts None)"
  shows "incident (removeEdge w 0 False) p = []"
    and "canvasEdges (removeEdge w 0 False) = []"
    and "nextEdge (removeEdge w 0 False) = Suc 0"
    and "propagations (removeEdge w 0 False) = []"
    and "edgeObj w 0 = \<lparr>source = Port 0 False ''out'', target = Port (Suc 0) True ''in''\<rparr>"
  unfolding assms
  by (auto simp: removeEdge_incident touches_def joined_pair_fields(1,4,5,6,7,8,9)
      joined_pair_next)

lemma source_and_union_fields:
  "nodes source_and_union = [0, Suc 0]"
  "nextNode source_and_union = Suc (Suc 0)"
  "nextEdge source_and_union = 0"
  "canvasEdges source_and_union = []"
  "incident source_and_union p = []"
  "propagations source_and_union = []"
  by (simp_all add: source_and_union_def initial_dataflow_def)

lemma doubly_joined_unfold:
  "doubly_joined =
     source_and_union
       \<lparr>edgeObj := (edgeObj source_and_union)
                     (0 := \<lparr>source = Port 0 False ''out'', target = Port (Suc 0) True ''in''\<rparr>,
                      Suc 0 := \<lparr>source = Port 0 False ''out'', target = Port (Suc 0) True ''in2''\<rparr>),
        nextEdge := Suc (Suc 0),
        incident := (((incident source_and_union)(Port 0 False ''out'' := [0, Suc 0]))
                      (Port (Suc 0) True ''in'' := [0]))
                      (Port (Suc 0) True ''in2'' := [Suc 0]),
        canvasEdges := [0, Suc 0],
        propagations := []\<rparr>"
proof -
  let ?chk = checkEdgeConnectivity
  let ?a = "Port 0 False ''out''" and ?b = "Port (Suc 0) True ''in''"
  let ?c = "Port (Suc 0) True ''in2''"
  let ?v = "snd (createEdge ?chk source_and_union ?a ?b False None)"
  have c1: "connectable (?chk source_and_union ?a ?b)"
    by (simp add: checkEdgeConnectivity_def source_and_union_fields)
  have v: "?v = source_and_union
       \<lparr>edgeObj := (edgeObj source_and_union)(0 := \<lparr>source = ?a, target = ?b\<rparr>),
        nextEdge := Suc 0,
        incident := ((incident source_and_union)(?a := [0]))(?b := [0]),
        canvasEdges := [0],
        propagations := []\<rparr>"
    using createEdge_accepted [of ?chk source_and_union ?a ?b False None] c1
    by (simp add: source_and_union_fields)
  have c2: "connectable (?chk ?v ?a ?c)"
    unfolding v by (simp add: checkEdgeConnectivity_def source_and_union_fields)
  have "snd (createEdge ?chk ?v ?a ?c False None) = source_and_union
       \<lparr>edgeObj := (edgeObj source_and_union)
                     (0 := \<lparr>source = ?a, target = ?b\<rparr>, Suc 0 := \<lparr>source = ?a, target = ?c\<rparr>),
        nextEdge := Suc (Suc 0),
        incident := (((incident source_and_union)(?a := [0, Suc 0]))(?b := [0]))(?c := [Suc 0]),
        canvasEdges := [0, Suc 0],
        propagations := []\<rparr>"
    using createEdge_accepted [of ?chk ?v ?a ?c False None] c2
    unfolding v by (simp add: source_and_union_fields fun_upd_twist)
  then show ?thesis by (simp add: doubly_joined_def)
qed

lemma doubly_joined_fields:
  "nodes doubly_joined = [0, Suc 0]"
  "nextNode doubly_joined = 2"
  "nextEdge doubly_joined = Suc (Suc 0)"
  "canvasEdges doubly_joined = [0, Suc 0]"
  "edgeObj doubly_joined 0 = \<lparr>source = Port 0 False ''out'', target = Port (Suc 0) True ''in''\<rparr>"
  "edgeObj doubly_joined (Suc 0)
     = \<lparr>source = Port 0 False ''out'', target = Port (Suc 0) True ''in2''\<rparr>"
  "incident doubly_joined p =
     (if p = Port (Suc 0) True ''in2'' then [Suc 0]
      else if p = Port (Suc 0) True ''in'' then [0]
      else if p = Port 0 False ''out'' then [0, Suc 0] else [])"
  "propagations doubly_joined = []"
  by (simp_all add: doubly_joined_unfold source_and_union_fields)

lemma doubly_joined_and_source_ports:
  "inputPorts (nodeObj doubly_joined_and_source 2) = []"
  "outputPorts (nodeObj doubly_joined_and_source 2) = [Port 2 False ''out'']"
  by (simp_all add: doubly_joined_and_source_def createNode_nodeObj doubly_joined_fields(2)
      new_node_def union_registry_def example_registry_def plain_options_def)

lemma source_and_union_ports:
  "inputPorts (nodeObj source_and_union 0) = []"
  "outputPorts (nodeObj source_and_union 0) = [Port 0 False ''out'']"
  "inputPorts (nodeObj source_and_union (Suc 0))
     = [Port (Suc 0) True ''in'', Port (Suc 0) True ''in2'']"
  "outputPorts (nodeObj source_and_union (Suc 0)) = [Port (Suc 0) False ''out'']"
  by (simp_all add: source_and_union_def createNode_nodeObj initial_dataflow_def new_node_def
      union_registry_def example_registry_def plain_options_def)

lemma doubly_joined_nodeObj: "nodeObj doubly_joined = nodeObj source_and_union"
  by (simp add: doubly_joined_unfold)

lemma doubly_joined_and_source_fields:
  "nodes doubly_joined_and_source = [0, Suc 0, 2]"
  "canvasEdges doubly_joined_and_source = [0, Suc 0]"
  "edgeObj doubly_joined_and_source 0
     = \<lparr>source = Port 0 False ''out'', target = Port (Suc 0) True ''in''\<rparr>"
  "edgeObj doubly_joined_and_source (Suc 0)
     = \<lparr>source = Port 0 False ''out'', target = Port (Suc 0) True ''in2''\<rparr>"
  "incident doubly_joined_and_source p =
     (if p = Port (Suc 0) True ''in2'' then [Suc 0]
      else if p = Port (Suc 0) True ''in'' then [0]
      else if p = Port 0 False ''out'' then [0, Suc 0] else [])"
  "nodeObj doubly_joined_and_source 0 = nodeObj source_and_union 0"
  "nodeObj doubly_joined_and_source (Suc 0) = nodeObj source_and_union (Suc 0)"
  by (auto simp: doubly_joined_and_source_def doubly_joined_fields createNode_nodeObj
      doubly_joined_nodeObj)

lemma doubly_joined_and_source_well_formed: "well_formed doubly_joined_and_source"
  by (simp add: well_formed_def ports_owned_def edges_linked_def incidence_sound_def
      node_ports_def doubly_joined_and_source_fields source_and_union_ports
      doubly_joined_and_source_ports)

text \<open>
  C4, as stated: when an edge from A to B receives a node N whose output port is
  connectable to B and which has no input port connectable from A, exactly one edge is
  created, from N to B, the removed edge is the original one, and afterwards A has no
  direct edge to B. The last part fails when a second edge joins A to B: with the data
  source (node 0) feeding both input ports of the union (node 1), inserting the second data
  source (node 2) on edge 0 creates exactly edge 2, from node 2 to node 1, and leaves edge
  1, which joins node 0 to node 1. It also fails when the inserted node is A itself:
  inserting the data source of the joined pair on its own edge creates exactly edge 1,
  again from node 0 to node 1.
\<close>

theorem insertNodeOnEdge_counterexample:
  "well_formed doubly_joined_and_source
   \<and> 0 \<in> set (canvasEdges doubly_joined_and_source)
   \<and> edgeObj doubly_joined_and_source 0
       = \<lparr>source = Port 0 False ''out'', target = Port 1 True ''in''\<rparr>
   \<and> findConnectablePort checkEdgeConnectivity (removeEdge doubly_joined_and_source 0 False) 2
        (Port 1 True ''in'') = Some (Port 2 False ''out'')
   \<and> inputPorts (nodeObj doubly_joined_and_source 2) = []
   \<and> fst (insertNodeOnEdge checkEdgeConnectivity (findConnectablePort checkEdgeConnectivity)
             doubly_joined_and_source 2 0) = ([2], 0)
   \<and> edgeObj (snd (insertNodeOnEdge checkEdgeConnectivity
                      (findConnectablePort checkEdgeConnectivity) doubly_joined_and_source 2 0)) 2
       = \<lparr>source = Port 2 False ''out'', target = Port 1 True ''in''\<rparr>
   \<and> canvasEdges (snd (insertNodeOnEdge checkEdgeConnectivity
                      (findConnectablePort checkEdgeConnectivity) doubly_joined_and_source 2 0))
       = [1, 2]
   \<and> joins (snd (insertNodeOnEdge checkEdgeConnectivity
                      (findConnectablePort checkEdgeConnectivity) doubly_joined_and_source 2 0))
        1 0 1
   \<and> well_formed joined_pair
   \<and> 0 \<in> set (canvasEdges joined_pair)
   \<and> edgeObj joined_pair 0 = \<lparr>source = Port 0 False ''out'', target = Port 1 True ''in''\<rparr>
   \<and> findConnectablePort checkEdgeConnectivity (removeEdge joined_pair 0 False) 0
        (Port 1 True ''in'') = Some (Port 0 False ''out'')
   \<and> inputPorts (nodeObj joined_pair 0) = []
   \<and> fst (insertNodeOnEdge checkEdgeConnectivity (findConnectablePort checkEdgeConnectivity)
             joined_pair 0 0) = ([1], 0)
   \<and> canvasEdges (snd (insertNodeOnEdge checkEdgeConnectivity
                      (findConnectablePort checkEdgeConnectivity) joined_pair 0 0)) = [1]
   \<and> joins (snd (insertNodeOnEdge checkEdgeConnectivity
                      (findConnectablePort checkEdgeConnectivity) joined_pair 0 0)) 1 0 1"
proof -
  let ?chk = checkEdgeConnectivity
  let ?fcp = "findConnectablePort checkEdgeConnectivity"
  let ?quiet = "Some \<lparr>disableMessage = True\<rparr>"
  let ?W = doubly_joined_and_source
  let ?J = joined_pair
  let ?b = "Port (Suc 0) True ''in''"
  have W: "canvasEdges ?W = [0, Suc 0]" "nextEdge ?W = Suc (Suc 0)"
    "edgeObj ?W 0 = \<lparr>source = Port 0 False ''out'', target = ?b\<rparr>"
    "edgeObj ?W (Suc 0) = \<lparr>source = Port 0 False ''out'', target = Port (Suc 0) True ''in2''\<rparr>"
    by (simp_all add: doubly_joined_and_source_def doubly_joined_fields)
  have cutW: "incident (removeEdge ?W 0 False) ?b = []"
    by (simp add: removeEdge_incident touches_def W doubly_joined_and_source_def
        doubly_joined_fields)
  have a1: "?fcp (removeEdge ?W 0 False) 2 ?b = Some (Port 2 False ''out'')"
    by (simp add: findConnectablePort_def checkEdgeConnectivity_def cutW
        doubly_joined_and_source_ports)
  have a2: "createEdgeToNode ?chk ?fcp (removeEdge ?W 0 False) (source (edgeObj ?W 0)) 2 False
              ?quiet = (None, removeEdge ?W 0 False)"
    by (simp add: W createEdgeToNode_def findConnectablePort_def message_disabled_def
        doubly_joined_and_source_ports)
  have a3: "connectable (?chk (removeEdge ?W 0 False) (Port 2 False ''out'') ?b)"
    by (simp add: checkEdgeConnectivity_def cutW)
  let ?w3 = "snd (createEdge ?chk (removeEdge ?W 0 False) (Port 2 False ''out'') ?b False ?quiet)"
  have a4: "createEdge ?chk (removeEdge ?W 0 False) (Port 2 False ''out'') ?b False ?quiet
              = (Some 2, ?w3)"
    using createEdge_fst [of ?chk "removeEdge ?W 0 False" "Port 2 False ''out''" ?b False ?quiet] a3
    by (simp add: prod_eq_iff W)
  have resW: "insertNodeOnEdge ?chk ?fcp ?W 2 0 = (([2], 0), propagateNode ?w3 2)"
    using insertNodeOnEdge_some [of ?fcp ?W 0 2 "Port 2 False ''out''" ?chk None
        "removeEdge ?W 0 False" "Some 2" ?w3] a1 a2 a4
    by (simp add: W List.map_filter_simps)
  have w3: "canvasEdges ?w3 = [Suc 0, 2]"
    "edgeObj ?w3 2 = \<lparr>source = Port 2 False ''out'', target = ?b\<rparr>"
    "edgeObj ?w3 (Suc 0) = \<lparr>source = Port 0 False ''out'', target = Port (Suc 0) True ''in2''\<rparr>"
    using createEdge_accepted [of ?chk "removeEdge ?W 0 False" "Port 2 False ''out''" ?b False ?quiet] a3
    by (simp_all add: W)
  have J: "canvasEdges ?J = [0]" "nextEdge ?J = Suc 0"
    "edgeObj ?J 0 = \<lparr>source = Port 0 False ''out'', target = ?b\<rparr>"
    by (simp_all add: joined_pair_fields)
  have portsJ: "inputPorts (nodeObj ?J 0) = []"
    "outputPorts (nodeObj ?J 0) = [Port 0 False ''out'']"
    by (simp_all add: joined_pair_fields source_and_filter_nodes)
  have cutJ: "incident (removeEdge ?J 0 False) ?b = []"
    by (simp add: removeEdge_incident touches_def joined_pair_fields)
  have b1: "?fcp (removeEdge ?J 0 False) 0 ?b = Some (Port 0 False ''out'')"
    by (simp add: findConnectablePort_def checkEdgeConnectivity_def cutJ portsJ)
  have b2: "createEdgeToNode ?chk ?fcp (removeEdge ?J 0 False) (source (edgeObj ?J 0)) 0 False
              ?quiet = (None, removeEdge ?J 0 False)"
    by (simp add: J createEdgeToNode_def findConnectablePort_def message_disabled_def portsJ)
  have b3: "connectable (?chk (removeEdge ?J 0 False) (Port 0 False ''out'') ?b)"
    by (simp add: checkEdgeConnectivity_def cutJ)
  let ?j3 = "snd (createEdge ?chk (removeEdge ?J 0 False) (Port 0 False ''out'') ?b False ?quiet)"
  have b4: "createEdge ?chk (removeEdge ?J 0 False) (Port 0 False ''out'') ?b False ?quiet
              = (Some 1, ?j3)"
    using createEdge_fst [of ?chk "removeEdge ?J 0 False" "Port 0 False ''out''" ?b False ?quiet] b3
    by (simp add: prod_eq_iff J)
  have resJ: "insertNodeOnEdge ?chk ?fcp ?J 0 0 = (([1], 0), propagateNode ?j3 0)"
    using insertNodeOnEdge_some [of ?fcp ?J 0 0 "Port 0 False ''out''" ?chk None
        "removeEdge ?J 0 False" "Some 1" ?j3] b1 b2 b4
    by (simp add: J List.map_filter_simps)
  have j3: "canvasEdges ?j3 = [Suc 0]"
    "edgeObj ?j3 (Suc 0) = \<lparr>source = Port 0 False ''out'', target = ?b\<rparr>"
    using createEdge_accepted [of ?chk "removeEdge ?J 0 False" "Port 0 False ''out''" ?b False ?quiet] b3
    by (simp_all add: J)
  show ?thesis
    unfolding resW resJ
    using a1 b1 doubly_joined_and_source_well_formed joined_pair_well_formed
    by (simp add: W J w3 j3 portsJ doubly_joined_and_source_ports joins_def propagateNode_def)
qed

text \<open>
  C4, amended. Let \<open>e\<close> be an edge of the canvas, from port \<open>a\<close> of node A to port \<open>b\<close>
  of node B. (1) \<^verbatim>\<open>insertNodeOnEdge\<close> removes \<open>e\<close> before it attempts a new edge: its
  result is the same for any two checks and finders that agree on the stores from which
  \<open>e\<close> is gone. (2) When the node N has an output port connectable to \<open>b\<close> and the edge
  from \<open>a\<close> to N is not created, exactly one edge is created, from that output port to
  \<open>b\<close>; the removed edge is \<open>e\<close>, which is gone from the canvas and from both its ports;
  if \<open>e\<close> was the only edge from A to B and the output port is not a port of A, no edge
  joins A to B afterwards; and the one propagation call made is for the node N. (3) When
  the edge from \<open>a\<close> to N is created, the one propagation call made is for the port \<open>a\<close>.
\<close>

theorem insertNodeOnEdge_splices:
  assumes "\<forall>x\<in>set (canvasEdges w). x < nextEdge w" and "e \<in> set (canvasEdges w)"
  shows "((\<forall>v a b. edge_gone v e \<longrightarrow> chk' v a b = chk v a b)
          \<and> (\<forall>v m p. edge_gone v e \<longrightarrow> fcp' v m p = fcp v m p)
          \<longrightarrow> insertNodeOnEdge chk' fcp' w n e = insertNodeOnEdge chk fcp w n e)
       \<and> (fcp (removeEdge w e False) n (target (edgeObj w e)) = Some outPort
          \<and> \<not> isInput outPort
          \<and> createEdgeToNode chk fcp (removeEdge w e False) (source (edgeObj w e)) n False
                (Some \<lparr>disableMessage = True\<rparr>) = (None, w2)
          \<and> connectable (chk w2 outPort (target (edgeObj w e)))
          \<longrightarrow> (\<exists>e' w'. insertNodeOnEdge chk fcp w n e = (([e'], e), w')
                 \<and> e' \<noteq> e
                 \<and> edgeObj w' e' = \<lparr>source = outPort, target = target (edgeObj w e)\<rparr>
                 \<and> set (canvasEdges w') = insert e' (set (canvasEdges w) - {e})
                 \<and> e \<notin> set (incident w' (source (edgeObj w e)))
                 \<and> e \<notin> set (incident w' (target (edgeObj w e)))
                 \<and> propagations w' = propagations w @ [PropagateNode n]
                 \<and> ((\<forall>x\<in>set (canvasEdges w). x \<noteq> e \<longrightarrow>
                         \<not> joins w x (port_node (source (edgeObj w e)))
                                     (port_node (target (edgeObj w e))))
                      \<and> port_node outPort \<noteq> port_node (source (edgeObj w e))
                     \<longrightarrow> (\<forall>x\<in>set (canvasEdges w').
                         \<not> joins w' x (port_node (source (edgeObj w e)))
                                      (port_node (target (edgeObj w e)))))))
       \<and> (fcp (removeEdge w e False) n (target (edgeObj w e)) = Some outPort
          \<and> createEdgeToNode chk fcp (removeEdge w e False) (source (edgeObj w e)) n False
                (Some \<lparr>disableMessage = True\<rparr>) = (Some e1, w1)
          \<longrightarrow> propagations (snd (insertNodeOnEdge chk fcp w n e))
                 = propagations w @ [PropagatePort (source (edgeObj w e))]
              \<and> e1 \<in> set (fst (fst (insertNodeOnEdge chk fcp w n e))))"
proof (intro conjI)
  from assms have lt: "e < nextEdge w" by simp
  show "(\<forall>v a b. edge_gone v e \<longrightarrow> chk' v a b = chk v a b)
          \<and> (\<forall>v m p. edge_gone v e \<longrightarrow> fcp' v m p = fcp v m p)
          \<longrightarrow> insertNodeOnEdge chk' fcp' w n e = insertNodeOnEdge chk fcp w n e"
    using insertNodeOnEdge_checks_after_removal [of e w chk' chk fcp' fcp n, OF lt] by blast
next
  show "fcp (removeEdge w e False) n (target (edgeObj w e)) = Some outPort
          \<and> \<not> isInput outPort
          \<and> createEdgeToNode chk fcp (removeEdge w e False) (source (edgeObj w e)) n False
                (Some \<lparr>disableMessage = True\<rparr>) = (None, w2)
          \<and> connectable (chk w2 outPort (target (edgeObj w e)))
          \<longrightarrow> (\<exists>e' w'. insertNodeOnEdge chk fcp w n e = (([e'], e), w')
                 \<and> e' \<noteq> e
                 \<and> edgeObj w' e' = \<lparr>source = outPort, target = target (edgeObj w e)\<rparr>
                 \<and> set (canvasEdges w') = insert e' (set (canvasEdges w) - {e})
                 \<and> e \<notin> set (incident w' (source (edgeObj w e)))
                 \<and> e \<notin> set (incident w' (target (edgeObj w e)))
                 \<and> propagations w' = propagations w @ [PropagateNode n]
                 \<and> ((\<forall>x\<in>set (canvasEdges w). x \<noteq> e \<longrightarrow>
                         \<not> joins w x (port_node (source (edgeObj w e)))
                                     (port_node (target (edgeObj w e))))
                      \<and> port_node outPort \<noteq> port_node (source (edgeObj w e))
                     \<longrightarrow> (\<forall>x\<in>set (canvasEdges w').
                         \<not> joins w' x (port_node (source (edgeObj w e)))
                                      (port_node (target (edgeObj w e))))))"
    using insertNodeOnEdge_downstream_only [of w e fcp n outPort chk w2, OF assms] by blast
next
  show "fcp (removeEdge w e False) n (target (edgeObj w e)) = Some outPort
          \<and> createEdgeToNode chk fcp (removeEdge w e False) (source (edgeObj w e)) n False
                (Some \<lparr>disableMessage = True\<rparr>) = (Some e1, w1)
          \<longrightarrow> propagations (snd (insertNodeOnEdge chk fcp w n e))
                 = propagations w @ [PropagatePort (source (edgeObj w e))]
              \<and> e1 \<in> set (fst (fst (insertNodeOnEdge chk fcp w n e)))"
    using insertNodeOnEdge_upstream [of fcp w e n outPort chk e1 w1] by blast
qed

theorem insertNodeOnEdge_splices_witness:
  "\<not> connectable (stale_check 0 checkEdgeConnectivity pair_and_source
                     (Port 2 False ''out'') (Port 1 True ''in''))
   \<and> insertNodeOnEdge (stale_check 0 checkEdgeConnectivity)
        (findConnectablePort (stale_check 0 checkEdgeConnectivity)) pair_and_source 2 0
       = insertNodeOnEdge checkEdgeConnectivity (findConnectablePort checkEdgeConnectivity)
           pair_and_source 2 0
   \<and> (\<exists>e' w'. insertNodeOnEdge checkEdgeConnectivity
                   (findConnectablePort checkEdgeConnectivity) pair_and_source 2 0
                 = (([e'], 0), w')
          \<and> e' \<noteq> 0
          \<and> edgeObj w' e' = \<lparr>source = Port 2 False ''out'', target = Port 1 True ''in''\<rparr>
          \<and> set (canvasEdges w') = {e'}
          \<and> propagations w' = [PropagateNode 2]
          \<and> (\<forall>x\<in>set (canvasEdges w'). \<not> joins w' x 0 1))
   \<and> propagations (snd (insertNodeOnEdge checkEdgeConnectivity
                           (findConnectablePort checkEdgeConnectivity) pair_and_filter 2 0))
       = [PropagatePort (Port 0 False ''out'')]"
proof -
  let ?chk = checkEdgeConnectivity
  let ?fcp = "findConnectablePort checkEdgeConnectivity"
  let ?chk' = "stale_check 0 checkEdgeConnectivity"
  let ?fcp' = "findConnectablePort (stale_check 0 checkEdgeConnectivity)"
  let ?quiet = "Some \<lparr>disableMessage = True\<rparr>"
  let ?S = pair_and_source
  let ?F = pair_and_filter
  have alloc: "\<forall>x\<in>set (canvasEdges ?S). x < nextEdge ?S"
    and mem: "0 \<in> set (canvasEdges ?S)"
    and allocF: "\<forall>x\<in>set (canvasEdges ?F). x < nextEdge ?F"
    and memF: "0 \<in> set (canvasEdges ?F)"
    by (simp_all add: pair_and_source_def pair_and_filter_def joined_pair_fields(1,4,5,6,7,8,9)
        joined_pair_next)
  have stale: "\<not> connectable (?chk' ?S (Port 2 False ''out'') (Port 1 True ''in''))"
    by (simp add: stale_check_def edge_gone_def pair_and_source_def joined_pair_fields(1,4,5,6,7,8,9)
        joined_pair_next)
  have ag1: "\<forall>v a b. edge_gone v 0 \<longrightarrow> ?chk' v a b = ?chk v a b"
    by (simp add: stale_check_def)
  have ag2: "\<forall>v m p. edge_gone v 0 \<longrightarrow> ?fcp' v m p = ?fcp v m p"
    by (simp add: findConnectablePort_def stale_check_def)
  have objS: "edgeObj ?S 0 = \<lparr>source = Port 0 False ''out'', target = Port (Suc 0) True ''in''\<rparr>"
    and cutS: "incident (removeEdge ?S 0 False) p = []" for p
    by (rule cut_fields [OF pair_and_source_def])+
  have objF: "edgeObj ?F 0 = \<lparr>source = Port 0 False ''out'', target = Port (Suc 0) True ''in''\<rparr>"
    and cutF: "incident (removeEdge ?F 0 False) p = []"
    and nextF: "nextEdge (removeEdge ?F 0 False) = Suc 0" for p
    by (rule cut_fields [OF pair_and_filter_def])+
  have h1: "?fcp (removeEdge ?S 0 False) 2 (target (edgeObj ?S 0)) = Some (Port 2 False ''out'')"
    by (simp add: objS findConnectablePort_def checkEdgeConnectivity_def cutS pair_and_source_ports)
  have h2: "\<not> isInput (Port 2 False ''out'')" by simp
  have h3: "createEdgeToNode ?chk ?fcp (removeEdge ?S 0 False) (source (edgeObj ?S 0)) 2 False
              ?quiet = (None, removeEdge ?S 0 False)"
    by (simp add: objS createEdgeToNode_def findConnectablePort_def message_disabled_def
        pair_and_source_ports)
  have h4: "connectable (?chk (removeEdge ?S 0 False) (Port 2 False ''out'')
                           (target (edgeObj ?S 0)))"
    by (simp add: objS checkEdgeConnectivity_def cutS)
  have nF: "nextEdge ?F = Suc 0"
    by (simp add: pair_and_filter_def joined_pair_fields(4))
  have k1: "?fcp (removeEdge ?F 0 False) 2 (target (edgeObj ?F 0)) = Some (Port 2 False ''out'')"
    by (simp add: objF findConnectablePort_def checkEdgeConnectivity_def cutF pair_and_filter_ports)
  have k0: "?chk (removeEdge ?F 0 False) (Port 0 False ''out'') (Port 2 True ''in'')
              = \<lparr>connectable = True, reason = []\<rparr>"
    by (simp add: checkEdgeConnectivity_def cutF)
  have "fst (createEdgeToNode ?chk ?fcp (removeEdge ?F 0 False) (source (edgeObj ?F 0)) 2 False
              ?quiet) = Some 1"
    by (simp add: objF createEdgeToNode_def findConnectablePort_def pair_and_filter_ports
        k0 createEdge_fst nF)
  then have k2: "createEdgeToNode ?chk ?fcp (removeEdge ?F 0 False) (source (edgeObj ?F 0)) 2
                   False ?quiet
            = (Some 1, snd (createEdgeToNode ?chk ?fcp (removeEdge ?F 0 False)
                              (source (edgeObj ?F 0)) 2 False ?quiet))"
    by (simp add: prod_eq_iff)
  note T = insertNodeOnEdge_splices
    [where w = ?S and e = 0 and chk' = ?chk' and chk = ?chk and fcp' = ?fcp' and fcp = ?fcp
       and n = 2 and outPort = "Port 2 False ''out''" and ?w2.0 = "removeEdge ?S 0 False",
     OF alloc mem]
  note U = insertNodeOnEdge_splices
    [where w = ?F and e = 0 and chk = ?chk and fcp = ?fcp
       and n = 2 and outPort = "Port 2 False ''out''" and ?e1.0 = 1
       and ?w1.0 = "snd (createEdgeToNode ?chk ?fcp (removeEdge ?F 0 False)
                              (source (edgeObj ?F 0)) 2 False ?quiet)",
     OF allocF memF]
  have A: "insertNodeOnEdge ?chk' ?fcp' ?S 2 0 = insertNodeOnEdge ?chk ?fcp ?S 2 0"
    by (rule mp [OF T [THEN conjunct1]]) (intro conjI ag1 ag2)
  have "\<exists>e' w'. insertNodeOnEdge ?chk ?fcp ?S 2 0 = (([e'], 0), w')
          \<and> e' \<noteq> 0
          \<and> edgeObj w' e' = \<lparr>source = Port 2 False ''out'', target = target (edgeObj ?S 0)\<rparr>
          \<and> set (canvasEdges w') = insert e' (set (canvasEdges ?S) - {0})
          \<and> 0 \<notin> set (incident w' (source (edgeObj ?S 0)))
          \<and> 0 \<notin> set (incident w' (target (edgeObj ?S 0)))
          \<and> propagations w' = propagations ?S @ [PropagateNode 2]
          \<and> ((\<forall>x\<in>set (canvasEdges ?S). x \<noteq> 0 \<longrightarrow>
                  \<not> joins ?S x (port_node (source (edgeObj ?S 0)))
                               (port_node (target (edgeObj ?S 0))))
               \<and> port_node (Port 2 False ''out'') \<noteq> port_node (source (edgeObj ?S 0))
              \<longrightarrow> (\<forall>x\<in>set (canvasEdges w').
                  \<not> joins w' x (port_node (source (edgeObj ?S 0)))
                               (port_node (target (edgeObj ?S 0)))))"
    by (rule mp [OF T [THEN conjunct2, THEN conjunct1]]) (intro conjI h1 h2 h3 h4)
  then obtain e' w' where r: "insertNodeOnEdge ?chk ?fcp ?S 2 0 = (([e'], 0), w')"
    and b: "e' \<noteq> 0"
      "edgeObj w' e' = \<lparr>source = Port 2 False ''out'', target = Port 1 True ''in''\<rparr>"
      "set (canvasEdges w') = {e'}"
      "propagations w' = [PropagateNode 2]"
      "\<forall>x\<in>set (canvasEdges w'). \<not> joins w' x 0 1"
    by (auto simp: objS pair_and_source_def joined_pair_fields(1,4,5,6,7,8,9)
        joined_pair_next)
  then have B: "\<exists>e' w'. insertNodeOnEdge ?chk ?fcp ?S 2 0 = (([e'], 0), w')
          \<and> e' \<noteq> 0
          \<and> edgeObj w' e' = \<lparr>source = Port 2 False ''out'', target = Port 1 True ''in''\<rparr>
          \<and> set (canvasEdges w') = {e'}
          \<and> propagations w' = [PropagateNode 2]
          \<and> (\<forall>x\<in>set (canvasEdges w'). \<not> joins w' x 0 1)"
    by blast
  have "propagations (snd (insertNodeOnEdge ?chk ?fcp ?F 2 0))
          = propagations ?F @ [PropagatePort (source (edgeObj ?F 0))]
        \<and> 1 \<in> set (fst (fst (insertNodeOnEdge ?chk ?fcp ?F 2 0)))"
    by (rule mp [OF U [THEN conjunct2, THEN conjunct2]]) (intro conjI k1 k2)
  then have C: "propagations (snd (insertNodeOnEdge ?chk ?fcp ?F 2 0))
                  = [PropagatePort (Port 0 False ''out'')]"
    by (simp add: objF pair_and_filter_def joined_pair_fields(1,4,5,6,7,8,9)
        joined_pair_next)
  from stale A B C show ?thesis by (intro conjI)
qed

section \<open>Saving and loading a diagram\<close>

subsection \<open>Resetting the store\<close>

lemma removeNodes_frame [simp]:
  "nodeObj (foldl (\<lambda>v n. snd (removeNode v n False)) w ns) = nodeObj w"
  "edgeObj (foldl (\<lambda>v n. snd (removeNode v n False)) w ns) = edgeObj w"
  "messages (foldl (\<lambda>v n. snd (removeNode v n False)) w ns) = messages w"
  "nextNode (foldl (\<lambda>v n. snd (removeNode v n False)) w ns) = nextNode w"
  "nextEdge (foldl (\<lambda>v n. snd (removeNode v n False)) w ns) = nextEdge w"
  by (induction ns arbitrary: w; simp)+





subsection \<open>Loading the saved nodes\<close>








subsection \<open>Loading the saved edges\<close>






subsection \<open>The round trip\<close>















end
